theory Spec2Isabelle
  imports Complex_Main
begin

section \<open>Data model (src/types/simulation.ts)\<close>

text \<open>
  TypeScript \<open>number\<close> is modelled by \<^typ>\<open>real\<close>: arithmetic is exact, there is no NaN and
  no rounding. String-literal union types are datatypes, interfaces are records. Field
  names that occur in several interfaces carry a prefix (\<open>pos_x\<close> for \<open>Position.x\<close>,
  \<open>cell_x\<close> for \<open>GridCell.x\<close>, \<open>drone_speed\<close> for \<open>DroneState.speed\<close>,
  \<open>metrics_battery\<close> for \<open>Metrics.battery\<close>, and so on).
\<close>

datatype Algorithm = RPA | ZPA | CPA | TFA | PDAP

datatype Environment =
  OpenGrid | UrbanDense | MazeFacility | DynamicRisk | ChangingEnv | FogOfWar

datatype HeatmapType = HmCoverage | HmThreat | HmUncertainty | HmNone

record Position =
  pos_x :: real
  pos_y :: real
  pos_z :: real

record Size =
  width :: real
  height :: real
  depth :: real

datatype ObstacleType = Static | Dynamic

record Obstacle =
  obs_id :: string
  obs_position :: Position
  obs_size :: Size
  obs_type :: ObstacleType
  obs_visible :: bool

datatype ThreatLevel = Low | Medium | High

text \<open>
  \<open>threatLevel\<close> is read from a three-element array at a computed index; \<open>None\<close> stands
  for the \<open>undefined\<close> that an index outside the array yields. \<open>detectedAt\<close> is an
  optional field.
\<close>

record Intruder =
  intr_id :: string
  intr_position :: Position
  detected :: bool
  threatLevel :: "ThreatLevel option"
  detectedAt :: "real option"

record DroneState =
  position :: Position
  rotation :: real
  fovAngle :: real
  fovRange :: real
  battery :: real
  drone_speed :: real
  isMoving :: bool

record GridCell =
  cell_x :: real
  cell_y :: real
  visited :: bool
  lastVisited :: real
  coverageValue :: real
  threatValue :: real
  uncertaintyValue :: real
  isVisible :: bool

record DecisionReason =
  dr_id :: real
  reason :: string
  weight :: real
  icon :: string

datatype EventType = Detection | Patrol | Alert | Decision | EnvironmentEvent

datatype Severity = Info | Warning | Danger

record TimelineEvent =
  ev_id :: string
  ev_timestamp :: real
  ev_type :: EventType
  ev_message :: string
  ev_severity :: Severity

record Metrics =
  areaObserved :: real
  blindSpots :: real
  detectionLatency :: real
  metrics_battery :: real
  intrudersDetected :: real
  totalIntruders :: real
  patrolEfficiency :: real
  avgResponseTime :: real

type_synonym Grid = "GridCell list list"

record SimulationState =
  isRunning :: bool
  isPaused :: bool
  speed :: real
  currentAlgorithm :: Algorithm
  currentEnvironment :: Environment
  activeHeatmap :: HeatmapType
  drone :: DroneState
  obstacles :: "Obstacle list"
  intruders :: "Intruder list"
  grid :: Grid
  metrics :: Metrics
  decisionReasons :: "DecisionReason list"
  timeline :: "TimelineEvent list"
  elapsedTime :: real

section \<open>The JavaScript runtime as a parameter\<close>

text \<open>
  The nondeterministic and built-in parts of the runtime are inputs of the model:
  \<open>random k\<close> is the value returned by the \<open>k\<close>-th call of \<open>Math.random()\<close> made
  during an operation (counted from 0), \<open>dateNow\<close> is \<open>Date.now()\<close>, \<open>numToString\<close>
  is the conversion of a number inside a template literal and \<open>toFixed1\<close> is
  \<open>Number.prototype.toFixed(1)\<close>.
\<close>

record Runtime =
  random :: "nat \<Rightarrow> real"
  dateNow :: real
  numToString :: "real \<Rightarrow> string"
  toFixed1 :: "real \<Rightarrow> string"

definition shift :: "nat \<Rightarrow> (nat \<Rightarrow> real) \<Rightarrow> nat \<Rightarrow> real" where
  "shift n rnd k = rnd (n + k)"

text \<open>
  \<open>Math.hypot\<close> and \<open>Math.atan2\<close> over the reals (there are no signed zeros, so
  \<open>atan2 0 0 = 0\<close>); \<open>Math.floor\<close>, \<open>Math.max\<close>, \<open>Math.min\<close>, \<open>Math.cos\<close> and
  \<open>Math.sin\<close> are \<open>floor\<close>, \<open>max\<close>, \<open>min\<close>, \<open>cos\<close> and \<open>sin\<close>.
\<close>

definition hypot :: "real \<Rightarrow> real \<Rightarrow> real" where
  "hypot a b = sqrt (a\<^sup>2 + b\<^sup>2)"

definition atan2 :: "real \<Rightarrow> real \<Rightarrow> real" where
  "atan2 b a =
     (if 0 < a then arctan (b / a)
      else if a < 0 \<and> 0 \<le> b then arctan (b / a) + pi
      else if a < 0 then arctan (b / a) - pi
      else if 0 < b then pi / 2
      else if b < 0 then - (pi / 2)
      else 0)"

fun digit_char :: "nat \<Rightarrow> char" where
  "digit_char n = ''0123456789'' ! (n mod 10)"

fun string_of_nat :: "nat \<Rightarrow> string" where
  "string_of_nat n =
     (if n < 10 then [digit_char n] else string_of_nat (n div 10) @ [digit_char n])"

definition GRID_SIZE :: nat where
  "GRID_SIZE = 20"

section \<open>World generation (src/hooks/useSimulation.ts, lines 17--198)\<close>

text \<open>
  \<open>createGrid\<close>: the cell at \<open>(gx, gy)\<close> is the \<open>(gx * 20 + gy)\<close>-th cell created. Without
  fog of war each cell draws twice (threat, then uncertainty); with fog of war it draws
  once, since the conditional expression does not evaluate its other branch.
\<close>

definition createCell :: "(nat \<Rightarrow> real) \<Rightarrow> bool \<Rightarrow> nat \<Rightarrow> nat \<Rightarrow> GridCell" where
  "createCell rnd fogOfWar gx gy =
     (let k = gx * GRID_SIZE + gy in
      \<lparr> cell_x = real gx,
        cell_y = real gy,
        visited = False,
        lastVisited = 0,
        coverageValue = 0,
        threatValue = rnd (if fogOfWar then k else 2 * k) * 0.3,
        uncertaintyValue = (if fogOfWar then 1 else rnd (2 * k + 1) * 0.5),
        isVisible = (\<not> fogOfWar) \<rparr>)"

definition createGrid :: "(nat \<Rightarrow> real) \<Rightarrow> bool \<Rightarrow> Grid" where
  "createGrid rnd fogOfWar =
     map (\<lambda>gx. map (\<lambda>gy. createCell rnd fogOfWar gx gy) [0..<GRID_SIZE]) [0..<GRID_SIZE]"


definition wallPositions :: "(real \<times> real \<times> real \<times> real) list" where
  "wallPositions =
     [(-6, 0, 0.3, 8), (-3, -4, 0.3, 8), (0, 2, 0.3, 8), (3, -2, 0.3, 8), (6, 0, 0.3, 8),
      (-4, -6, 8, 0.3), (2, -3, 6, 0.3), (-2, 3, 8, 0.3), (4, 6, 6, 0.3)]"

definition generateObstacles :: "(nat \<Rightarrow> real) \<Rightarrow> Environment \<Rightarrow> Obstacle list" where
  "generateObstacles rnd env =
     (case env of
        OpenGrid \<Rightarrow> []
      | UrbanDense \<Rightarrow>
          map (\<lambda>i.
            \<lparr> obs_id = ''obs-'' @ string_of_nat i,
              obs_position = \<lparr> pos_x = rnd (5 * i) * 16 - 8, pos_y = 0,
                               pos_z = rnd (5 * i + 1) * 16 - 8 \<rparr>,
              obs_size = \<lparr> width = 0.8 + rnd (5 * i + 2) * 1.2,
                           height = 1 + rnd (5 * i + 3) * 2,
                           depth = 0.8 + rnd (5 * i + 4) * 1.2 \<rparr>,
              obs_type = Static,
              obs_visible = True \<rparr>) [0..<15]
      | MazeFacility \<Rightarrow>
          map (\<lambda>(i, (wx, wz, ww, wd)).
            \<lparr> obs_id = ''wall-'' @ string_of_nat i,
              obs_position = \<lparr> pos_x = wx, pos_y = 0, pos_z = wz \<rparr>,
              obs_size = \<lparr> width = ww, height = 1.5, depth = wd \<rparr>,
              obs_type = Static,
              obs_visible = True \<rparr>) (enumerate 0 wallPositions)
      | DynamicRisk \<Rightarrow>
          map (\<lambda>i.
            \<lparr> obs_id = ''obs-'' @ string_of_nat i,
              obs_position = \<lparr> pos_x = rnd (2 * i) * 14 - 7, pos_y = 0,
                               pos_z = rnd (2 * i + 1) * 14 - 7 \<rparr>,
              obs_size = \<lparr> width = 1, height = 1, depth = 1 \<rparr>,
              obs_type = Static,
              obs_visible = True \<rparr>) [0..<6]
      | ChangingEnv \<Rightarrow>
          map (\<lambda>i.
            \<lparr> obs_id = ''obs-'' @ string_of_nat i,
              obs_position = \<lparr> pos_x = rnd (3 * i) * 16 - 8, pos_y = 0,
                               pos_z = rnd (3 * i + 1) * 16 - 8 \<rparr>,
              obs_size = \<lparr> width = 1, height = 1.5, depth = 1 \<rparr>,
              obs_type = Dynamic,
              obs_visible = (rnd (3 * i + 2) > 0.3) \<rparr>) [0..<10]
      | FogOfWar \<Rightarrow>
          map (\<lambda>i.
            \<lparr> obs_id = ''obs-'' @ string_of_nat i,
              obs_position = \<lparr> pos_x = rnd (2 * i) * 14 - 7, pos_y = 0,
                               pos_z = rnd (2 * i + 1) * 14 - 7 \<rparr>,
              obs_size = \<lparr> width = 1, height = 1, depth = 1 \<rparr>,
              obs_type = Static,
              obs_visible = True \<rparr>) [0..<8])"

definition generateObstaclesDraws :: "Environment \<Rightarrow> nat" where
  "generateObstaclesDraws env =
     (case env of
        OpenGrid \<Rightarrow> 0 | UrbanDense \<Rightarrow> 75 | MazeFacility \<Rightarrow> 0
      | DynamicRisk \<Rightarrow> 12 | ChangingEnv \<Rightarrow> 30 | FogOfWar \<Rightarrow> 16)"

definition clusterCenters :: "(real \<times> real) list" where
  "clusterCenters = [(-5, -5), (5, -5), (-5, 5), (5, 5)]"

text \<open>
  Array indexing as JavaScript does it: an index that is not a position of the array
  yields \<open>undefined\<close>.
\<close>

definition arrayAt :: "'a list \<Rightarrow> int \<Rightarrow> 'a option" where
  "arrayAt xs i = (if 0 \<le> i \<and> i < int (length xs) then Some (xs ! nat i) else None)"

text \<open>
  The body of the loop of \<open>generateIntruders\<close>, for index \<open>i\<close>, when \<open>k\<close> draws have been
  made so far. It returns the intruder and the number of draws made after it.
\<close>

definition generateIntruder :: "(nat \<Rightarrow> real) \<Rightarrow> Environment \<Rightarrow> nat \<Rightarrow> nat \<Rightarrow> Intruder \<times> nat" where
  "generateIntruder rnd env i k =
     (let x0 = rnd k * 14 - 7;
          z0 = rnd (k + 1) * 14 - 7;
          clustered = (env = DynamicRisk \<and> i > 0);
          center = clusterCenters ! ((i div 2) mod 4);
          x1 = (if clustered then fst center + (rnd (k + 2) - 0.5) * 3 else x0);
          z1 = (if clustered then snd center + (rnd (k + 3) - 0.5) * 3 else z0);
          k' = (if clustered then k + 4 else k + 2)
      in (\<lparr> intr_id = ''intruder-'' @ string_of_nat i,
            intr_position = \<lparr> pos_x = x1, pos_y = 0, pos_z = z1 \<rparr>,
            detected = False,
            threatLevel = arrayAt [Low, Medium, High] \<lfloor>rnd k' * 3\<rfloor>,
            detectedAt = None \<rparr>, k' + 1))"

fun generateIntrudersLoop ::
  "(nat \<Rightarrow> real) \<Rightarrow> Environment \<Rightarrow> nat \<Rightarrow> nat \<Rightarrow> nat \<Rightarrow> Intruder list" where
  "generateIntrudersLoop rnd env i k 0 = []"
| "generateIntrudersLoop rnd env i k (Suc n) =
     (case generateIntruder rnd env i k of
        (intr, k') \<Rightarrow> intr # generateIntrudersLoop rnd env (i + 1) k' n)"

definition intruderCount :: "Environment \<Rightarrow> nat" where
  "intruderCount env = (if env = DynamicRisk then 8 else 4)"

definition generateIntruders :: "(nat \<Rightarrow> real) \<Rightarrow> Environment \<Rightarrow> Intruder list" where
  "generateIntruders rnd env = generateIntrudersLoop rnd env 0 0 (intruderCount env)"

definition generateIntrudersDraws :: "Environment \<Rightarrow> nat" where
  "generateIntrudersDraws env = (if env = DynamicRisk then 38 else 12)"

definition initialDroneState :: DroneState where
  "initialDroneState =
     \<lparr> position = \<lparr> pos_x = 0, pos_y = 2, pos_z = 0 \<rparr>,
       rotation = 0,
       fovAngle = 60,
       fovRange = 4,
       battery = 100,
       drone_speed = 1,
       isMoving = False \<rparr>"

definition initialMetrics :: Metrics where
  "initialMetrics =
     \<lparr> areaObserved = 0,
       blindSpots = 100,
       detectionLatency = 0,
       metrics_battery = 100,
       intrudersDetected = 0,
       totalIntruders = 0,
       patrolEfficiency = 0,
       avgResponseTime = 0 \<rparr>"

section \<open>Decision engine: \<open>getNextPosition\<close> (lines 223--477)\<close>

definition mkReason :: "real \<Rightarrow> string \<Rightarrow> real \<Rightarrow> string \<Rightarrow> DecisionReason" where
  "mkReason i r w ic = \<lparr> dr_id = i, reason = r, weight = w, icon = ic \<rparr>"

text \<open>\<open>grid[gx]?.[gz]\<close> and \<open>grid[gx] && grid[gx][gz]\<close>: the cell, or \<open>undefined\<close>.\<close>

definition gridAt :: "Grid \<Rightarrow> int \<Rightarrow> int \<Rightarrow> GridCell option" where
  "gridAt g gx gz = (case arrayAt g gx of None \<Rightarrow> None | Some row \<Rightarrow> arrayAt row gz)"

definition decideRPA :: "Runtime \<Rightarrow> DroneState \<Rightarrow> Position \<times> DecisionReason list" where
  "decideRPA rt d =
     (let p = position d;
          angle = random rt 0 * pi * 2;
          distance = 1 + random rt 1 * 2
      in (p\<lparr> pos_x := max (-9) (min 9 (pos_x p + cos angle * distance)),
             pos_z := max (-9) (min 9 (pos_z p + sin angle * distance)) \<rparr>,
          [mkReason 1 ''Random direction selected'' 100 ''Shuffle'']))"

definition decideZPA :: "DroneState \<Rightarrow> Position \<times> DecisionReason list" where
  "decideZPA d =
     (let p = position d;
          gridX = \<lfloor>(pos_x p + 10) / 2\<rfloor>;
          direction = (if gridX mod 2 = 0 then 1 else - 1 :: real);
          (p1, r1) =
            (if pos_z p * direction \<ge> 8
             then (p\<lparr> pos_x := pos_x p + 2 \<rparr>,
                   mkReason 1 ''Advancing to next row'' 80 ''ArrowRight'')
             else (p\<lparr> pos_z := pos_z p + direction * 2 \<rparr>,
                   mkReason 1 ''Continuing zigzag pattern'' 80 ''TrendingUp''));
          p2 = (if pos_x p1 > 9 then p1\<lparr> pos_x := - 9 \<rparr> else p1)
      in (p2, [r1, mkReason 2 ''Systematic coverage'' 60 ''Grid3x3'']))"

record Sector =
  sec_id :: nat
  sec_x :: real
  sec_z :: real
  score :: int

definition sectors :: "Sector list" where
  "sectors =
     [\<lparr> sec_id = 1, sec_x = 5, sec_z = 5, score = 0 \<rparr>,
      \<lparr> sec_id = 2, sec_x = - 5, sec_z = 5, score = 0 \<rparr>,
      \<lparr> sec_id = 3, sec_x = - 5, sec_z = - 5, score = 0 \<rparr>,
      \<lparr> sec_id = 4, sec_x = 5, sec_z = - 5, score = 0 \<rparr>]"

definition scoreSector :: "Grid \<Rightarrow> Sector \<Rightarrow> Sector" where
  "scoreSector g s =
     foldl (\<lambda>s' (dx, dz).
        (case gridAt g \<lfloor>sec_x s' + dx + 10\<rfloor> \<lfloor>sec_z s' + dz + 10\<rfloor> of
           Some c \<Rightarrow> if \<not> visited c then s'\<lparr> score := score s' + 1 \<rparr> else s'
         | None \<Rightarrow> s'))
       s (List.product [- 2, 0, 2] [- 2, 0, 2])"

text \<open>
  \<open>Array.prototype.sort\<close> is stable, and so is \<open>sort_key\<close>; the comparator
  \<open>b.score - a.score\<close> orders by descending score. \<open>reduce\<close> without an initial value
  starts from the first element.
\<close>

definition nearestCell :: "Position \<Rightarrow> GridCell list \<Rightarrow> GridCell" where
  "nearestCell p cs =
     foldl (\<lambda>best cell.
        let d = hypot (cell_x cell - 10 - pos_x p) (cell_y cell - 10 - pos_z p);
            bd = hypot (cell_x best - 10 - pos_x p) (cell_y best - 10 - pos_z p)
        in if d < bd then cell else best)
       (hd cs) (tl cs)"

definition decideCPA :: "DroneState \<Rightarrow> Grid \<Rightarrow> Position \<times> DecisionReason list" where
  "decideCPA d g =
     (let p = position d;
          unvisitedCells = filter (\<lambda>c. \<not> visited c) (concat g);
          sorted_sectors = sort_key (\<lambda>s. - score s) (map (scoreSector g) sectors);
          targetSector = hd sorted_sectors
      in if score targetSector > 0 then
           (let distToSector = hypot (sec_x targetSector - pos_x p) (sec_z targetSector - pos_z p)
            in if distToSector > 5 then
                 (p\<lparr> pos_x := sec_x targetSector, pos_z := sec_z targetSector \<rparr>,
                  [mkReason 1 (''Transit to Sector '' @ string_of_nat (sec_id targetSector))
                     100 ''ArrowRight''])
               else if length unvisitedCells > 0 then
                 (let localUnvisited = filter (\<lambda>c.
                        \<bar>(cell_x c - 10) - sec_x targetSector\<bar> < 8 \<and>
                        \<bar>(cell_y c - 10) - sec_z targetSector\<bar> < 8) unvisitedCells
                  in if length localUnvisited > 0 then
                       (let target = nearestCell p localUnvisited
                        in (p\<lparr> pos_x := cell_x target - 10, pos_z := cell_y target - 10 \<rparr>,
                            [mkReason 1 (''Sweeping Sector '' @ string_of_nat (sec_id targetSector))
                               90 ''Grid'']))
                     else
                       (p\<lparr> pos_x := sec_x targetSector, pos_z := sec_z targetSector \<rparr>,
                        [mkReason 1 ''Sector Finishing'' 60 ''Check'']))
               else (p, []))
         else (p\<lparr> pos_x := 0, pos_z := 0 \<rparr>,
               [mkReason 1 ''Mission Complete - RTB'' 100 ''Home'']))"

text \<open>
  TFA. Nothing inside the \<open>try\<close> block can throw on these types, so the \<open>catch\<close>
  branch has no counterpart.
\<close>

definition decideTFA :: "Runtime \<Rightarrow> DroneState \<Rightarrow> Intruder list \<Rightarrow> Position \<times> DecisionReason list" where
  "decideTFA rt d intrs =
     (let p = position d;
          detectedIntruders = filter detected intrs
      in if length detectedIntruders > 0 then
           (let (sx, sz) = foldl (\<lambda>(ax, az) curr.
                    (ax + pos_x (intr_position curr), az + pos_z (intr_position curr)))
                  (0, 0) detectedIntruders;
                count = max 1 (real (length detectedIntruders));
                cx = sx / count;
                cz = sz / count;
                dx = cx - pos_x p;
                dz = cz - pos_z p;
                dist = hypot dx dz;
                angle = atan2 dz dx;
                (p1, r1) =
                  (if dist > 4 then
                     (p\<lparr> pos_x := pos_x p + cos angle * 3, pos_z := pos_z p + sin angle * 3 \<rparr>,
                      mkReason 1 ''Intercepting target(s)'' 100 ''Crosshair'')
                   else if dist < 2.5 then
                     (p\<lparr> pos_x := pos_x p - cos angle * 2, pos_z := pos_z p - sin angle * 2 \<rparr>,
                      mkReason 1 ''Maintaing tactical standoff'' 90 ''Shield'')
                   else
                     (p\<lparr> pos_x := pos_x p + cos (angle + pi / 2) * 1,
                         pos_z := pos_z p + sin (angle + pi / 2) * 1 \<rparr>,
                      mkReason 1 ''Tracking & Monitoring'' 85 ''Eye''))
            in (p1, [r1, mkReason 2 (''Threat Centroid: ['' @ toFixed1 rt cx @ '', ''
                                       @ toFixed1 rt cz @ '']'') 80 ''MapPin'']))
         else
           (let t = dateNow rt / 1000;
                spiralRadius = 3 + sin (t * 0.5) * 5
            in (p\<lparr> pos_x := cos t * spiralRadius, pos_z := sin t * spiralRadius \<rparr>,
                [mkReason 1 ''Scanning for hostiles (Spiral)'' 50 ''Search'',
                 mkReason 2 ''Sector clear'' 30 ''CheckCircle''])))"

datatype CandidateType = ThreatCandidate | SectorCandidate

record Candidate =
  cand_x :: real
  cand_z :: real
  cand_type :: CandidateType
  cand_val :: real

text \<open>
  The state of the PDAP candidate loop: \<open>bestScore\<close> (\<open>None\<close> is \<open>-Infinity\<close>),
  \<open>bestTarget\<close> (\<open>None\<close> is \<open>null\<close>) and \<open>primeReason\<close>.
\<close>

record PdapState =
  bestScore :: "real option"
  bestTarget :: "(real \<times> real) option"
  primeReason :: string

definition str_includes :: "string \<Rightarrow> string \<Rightarrow> bool" where
  "str_includes s sub = list_ex (\<lambda>k. take (length sub) (drop k s) = sub) [0..<Suc (length s)]"

definition pdapStep :: "DroneState \<Rightarrow> Grid \<Rightarrow> real \<Rightarrow> real \<Rightarrow> PdapState \<Rightarrow> Candidate \<Rightarrow> PdapState" where
  "pdapStep d g maxRange moveCostWeight st cand =
     (let uncertaintyWeight = 2.0 :: real;
          coverageWeight = 1.0 :: real;
          dist = hypot (cand_x cand - pos_x (position d)) (cand_z cand - pos_z (position d))
      in if dist > maxRange then st
         else
           (let score0 = cand_val cand;
                gx = \<lfloor>cand_x cand + 10\<rfloor>;
                gz = \<lfloor>cand_z cand + 10\<rfloor>;
                score1 = (case gridAt g gx gz of
                            Some c \<Rightarrow>
                              (let sc = score0 + uncertaintyValue c * uncertaintyWeight * 10
                               in if \<not> visited c then sc + coverageWeight * 5 else sc)
                          | None \<Rightarrow> score0);
                score2 = score1 - dist * moveCostWeight
            in if (case bestScore st of None \<Rightarrow> True | Some b \<Rightarrow> score2 > b) then
                 \<lparr> bestScore = Some score2,
                   bestTarget = Some (cand_x cand, cand_z cand),
                   primeReason = (case cand_type cand of
                                    ThreatCandidate \<Rightarrow> ''Engaging identified threat''
                                  | SectorCandidate \<Rightarrow> ''Exploring high-value sector'') \<rparr>
               else st))"

text \<open>
  PDAP. Nothing inside the \<open>try\<close> block can throw on these types, so the \<open>catch\<close>
  branch has no counterpart. When \<open>bestTarget\<close> is set, so is \<open>bestScore\<close>.
\<close>

definition decidePDAP :: "Runtime \<Rightarrow> DroneState \<Rightarrow> Grid \<Rightarrow> Intruder list \<Rightarrow> Position \<times> DecisionReason list" where
  "decidePDAP rt d g intrs =
     (let p = position d;
          detectedIntruders = filter detected intrs;
          maxRange = (if battery d > 50 then 20 else 10 :: real);
          moveCostWeight = (if battery d > 30 then 0.05 else 0.2 :: real);
          threats = map (\<lambda>i. \<lparr> cand_x = pos_x (intr_position i), cand_z = pos_z (intr_position i),
                                 cand_type = ThreatCandidate, cand_val = 10 \<rparr>) detectedIntruders;
          primeReason0 = (if length detectedIntruders > 0 then ''Responding to threats''
                          else ''Patrolling'');
          clusters = map (\<lambda>(sx, sz). \<lparr> cand_x = sx, cand_z = sz,
                                          cand_type = SectorCandidate, cand_val = 0 \<rparr>)
                       (List.product [- 8, - 4, 0, 4, 8] [- 8, - 4, 0, 4, 8]);
          candidates = threats @ clusters;
          st = foldl (pdapStep d g maxRange moveCostWeight)
                 \<lparr> bestScore = None, bestTarget = None, primeReason = primeReason0 \<rparr> candidates
      in case bestTarget st of
           Some (bx, bz) \<Rightarrow>
             (p\<lparr> pos_x := bx, pos_z := bz \<rparr>,
              [mkReason 1 (primeReason st) 95
                 (if str_includes (primeReason st) ''threat'' then ''AlertTriangle'' else ''Compass''),
               mkReason 2 (''Utility Score: ''
                            @ (case bestScore st of Some b \<Rightarrow> toFixed1 rt b | None \<Rightarrow> ''-Infinity''))
                 60 ''Activity''])
         | None \<Rightarrow>
             (p\<lparr> pos_x := 0, pos_z := 0 \<rparr>, [mkReason 1 ''Returning to base'' 50 ''Home'']))"

definition getNextPosition ::
  "Runtime \<Rightarrow> Algorithm \<Rightarrow> DroneState \<Rightarrow> Grid \<Rightarrow> Intruder list \<Rightarrow> Obstacle list
     \<Rightarrow> Position \<times> DecisionReason list" where
  "getNextPosition rt algorithm d g intrs obsts =
     (let (nextPos, reasons) =
            (case algorithm of
               RPA \<Rightarrow> decideRPA rt d
             | ZPA \<Rightarrow> decideZPA d
             | CPA \<Rightarrow> decideCPA d g
             | TFA \<Rightarrow> decideTFA rt d intrs
             | PDAP \<Rightarrow> decidePDAP rt d g intrs)
      in (nextPos\<lparr> pos_x := max (- 9) (min 9 (pos_x nextPos)),
                   pos_z := max (- 9) (min 9 (pos_z nextPos)) \<rparr>,
          take 3 reasons))"

section \<open>The tick: \<open>updateSimulation\<close> (lines 480--614)\<close>

text \<open>
  The world is the React state together with \<open>targetPositionRef\<close>, which lives outside
  the state. Writing through an index that the array does not have raises a
  \<open>TypeError\<close>; that is the only way a tick can fail.
\<close>

datatype Error = TypeError

type_synonym World = "SimulationState \<times> Position option"

definition moveDrone :: "real \<Rightarrow> Position \<Rightarrow> DroneState \<Rightarrow> DroneState" where
  "moveDrone dt target d =
     (let dx = pos_x target - pos_x (position d);
          dz = pos_z target - pos_z (position d);
          distance = hypot dx dz;
          moveSpeed = 2 * dt;
          moveX = (if distance > 0.1 then (dx / distance) * min moveSpeed distance else 0);
          moveZ = (if distance > 0.1 then (dz / distance) * min moveSpeed distance else 0)
      in d\<lparr> position := \<lparr> pos_x = pos_x (position d) + moveX,
                           pos_y = pos_y (position d),
                           pos_z = pos_z (position d) + moveZ \<rparr>,
             rotation := atan2 dz dx,
             battery := max 0 (battery d - 0.01 * dt),
             isMoving := (distance > 0.1) \<rparr>)"

definition markCell :: "real \<Rightarrow> GridCell \<Rightarrow> GridCell" where
  "markCell t c =
     c\<lparr> visited := True,
        lastVisited := t,
        coverageValue := 1,
        uncertaintyValue := max 0 (uncertaintyValue c - 0.1),
        isVisible := True \<rparr>"

definition markAt :: "Grid \<Rightarrow> nat \<Rightarrow> nat \<Rightarrow> real \<Rightarrow> Error + Grid" where
  "markAt g gx gz t =
     (if gx < length g \<and> gz < length (g ! gx)
      then Inr (g[gx := (g ! gx)[gz := markCell t (g ! gx ! gz)]])
      else Inl TypeError)"

fun markLoop :: "real \<Rightarrow> real \<Rightarrow> int \<Rightarrow> int \<Rightarrow> (int \<times> int) list \<Rightarrow> Grid \<Rightarrow> Error + Grid" where
  "markLoop fov t cx cz [] g = Inr g"
| "markLoop fov t cx cz ((dx, dz) # rest) g =
     (let gx = cx + dx; gz = cz + dz
      in if 0 \<le> gx \<and> gx < int GRID_SIZE \<and> 0 \<le> gz \<and> gz < int GRID_SIZE
            \<and> hypot (of_int dx) (of_int dz) \<le> fov
         then (case markAt g (nat gx) (nat gz) t of
                 Inl e \<Rightarrow> Inl e
               | Inr g' \<Rightarrow> markLoop fov t cx cz rest g')
         else markLoop fov t cx cz rest g)"

definition fovOffsets :: "(int \<times> int) list" where
  "fovOffsets = List.product [- 3..3] [- 3..3]"

definition updateGridCoverage :: "DroneState \<Rightarrow> real \<Rightarrow> Grid \<Rightarrow> Error + Grid" where
  "updateGridCoverage newDrone newElapsed g =
     (let droneGridX = \<lfloor>pos_x (position newDrone) + 10\<rfloor>;
          droneGridZ = \<lfloor>pos_z (position newDrone) + 10\<rfloor>
      in markLoop (fovRange newDrone) newElapsed droneGridX droneGridZ fovOffsets g)"

definition detectIntruder :: "DroneState \<Rightarrow> real \<Rightarrow> Intruder \<Rightarrow> Intruder" where
  "detectIntruder newDrone newElapsed intruder =
     (let dist = hypot (pos_x (intr_position intruder) - pos_x (position newDrone))
                       (pos_z (intr_position intruder) - pos_z (position newDrone))
      in if dist \<le> fovRange newDrone \<and> \<not> detected intruder
         then intruder\<lparr> detected := True, detectedAt := Some newElapsed \<rparr>
         else intruder)"

definition detectionEvent :: "Runtime \<Rightarrow> real \<Rightarrow> Intruder \<Rightarrow> TimelineEvent" where
  "detectionEvent rt newElapsed intruder =
     \<lparr> ev_id = ''detection-'' @ intr_id intruder @ ''-'' @ numToString rt newElapsed,
       ev_timestamp = newElapsed,
       ev_type = Detection,
       ev_message = ''Intruder detected at ('' @ toFixed1 rt (pos_x (intr_position intruder))
                      @ '', '' @ toFixed1 rt (pos_z (intr_position intruder)) @ '')'',
       ev_severity = (if threatLevel intruder = Some High then Danger
                      else if threatLevel intruder = Some Medium then Warning
                      else Info) \<rparr>"

text \<open>
  \<open>newIntruders.forEach((intruder, i) => ...)\<close> reads \<open>prev.intruders[i]\<close>; the two lists
  have the same length, so the loop runs over their \<open>zip\<close>.
\<close>

definition updateTimeline ::
  "Runtime \<Rightarrow> real \<Rightarrow> Intruder list \<Rightarrow> Intruder list \<Rightarrow> TimelineEvent list \<Rightarrow> TimelineEvent list" where
  "updateTimeline rt newElapsed newIntruders prevIntruders prevTimeline =
     foldl (\<lambda>newTimeline (intruder, old).
        if detected intruder \<and> \<not> detected old
        then detectionEvent rt newElapsed intruder # newTimeline
        else newTimeline)
       prevTimeline (zip newIntruders prevIntruders)"

definition truthy :: "real option \<Rightarrow> bool" where
  "truthy v = (case v of None \<Rightarrow> False | Some t \<Rightarrow> t \<noteq> 0)"

definition orZero :: "real option \<Rightarrow> real" where
  "orZero v = (case v of None \<Rightarrow> 0 | Some t \<Rightarrow> t)"

definition calcMetrics :: "Metrics \<Rightarrow> DroneState \<Rightarrow> Grid \<Rightarrow> Intruder list \<Rightarrow> real \<Rightarrow> Metrics" where
  "calcMetrics prevMetrics newDrone newGrid newIntruders newElapsed =
     (let visitedCount = real (length (filter visited (concat newGrid)));
          totalCells = real (GRID_SIZE * GRID_SIZE);
          detectedCount = real (length (filter detected newIntruders))
      in \<lparr> areaObserved = (visitedCount / totalCells) * 100,
           blindSpots = ((totalCells - visitedCount) / totalCells) * 100,
           detectionLatency =
             (if detectedCount > 0
              then foldl (\<lambda>sum i. sum + orZero (detectedAt i)) 0
                     (filter (\<lambda>i. detected i \<and> truthy (detectedAt i)) newIntruders)
                   / detectedCount
              else 0),
           metrics_battery = battery newDrone,
           intrudersDetected = detectedCount,
           totalIntruders = real (length newIntruders),
           patrolEfficiency = (visitedCount / max 1 newElapsed) * 10,
           avgResponseTime = (if detectedCount > 0 then detectionLatency prevMetrics else 0) \<rparr>)"

text \<open>The branch that obtains a new target (lines 487--506).\<close>

definition acquireTarget :: "Runtime \<Rightarrow> SimulationState \<Rightarrow> World" where
  "acquireTarget rt prev =
     (case getNextPosition rt (currentAlgorithm prev) (drone prev) (grid prev)
             (intruders prev) (obstacles prev) of
        (pos, reasons) \<Rightarrow> (prev\<lparr> decisionReasons := reasons \<rparr>, Some pos))"

text \<open>The branch that moves towards the target (lines 508--612).\<close>

definition moveTick :: "Runtime \<Rightarrow> real \<Rightarrow> SimulationState \<Rightarrow> Position \<Rightarrow> Error + World" where
  "moveTick rt dt prev target =
     (let newElapsed = elapsedTime prev + dt;
          newDrone = moveDrone dt target (drone prev)
      in case updateGridCoverage newDrone newElapsed (grid prev) of
           Inl e \<Rightarrow> Inl e
         | Inr newGrid \<Rightarrow>
             (let newIntruders = map (detectIntruder newDrone newElapsed) (intruders prev);
                  newTimeline = updateTimeline rt newElapsed newIntruders (intruders prev)
                                  (timeline prev);
                  newMetrics = calcMetrics (metrics prev) newDrone newGrid newIntruders newElapsed
              in Inr (prev\<lparr> drone := newDrone,
                            grid := newGrid,
                            intruders := newIntruders,
                            metrics := newMetrics,
                            timeline := take 50 newTimeline,
                            elapsedTime := newElapsed \<rparr>,
                      Some target)))"

definition targetReached :: "SimulationState \<Rightarrow> Position \<Rightarrow> bool" where
  "targetReached prev target =
     (hypot (pos_x (position (drone prev)) - pos_x target)
            (pos_z (position (drone prev)) - pos_z target) < 0.5)"

definition updateSimulation :: "Runtime \<Rightarrow> real \<Rightarrow> World \<Rightarrow> Error + World" where
  "updateSimulation rt deltaTime w =
     (case w of (prev, targetRef) \<Rightarrow>
        if \<not> isRunning prev \<or> isPaused prev then Inr (prev, targetRef)
        else
          (let dt = deltaTime * speed prev
           in case targetRef of
                None \<Rightarrow> Inr (acquireTarget rt prev)
              | Some target \<Rightarrow>
                  if targetReached prev target then Inr (acquireTarget rt prev)
                  else moveTick rt dt prev target))"

section \<open>Control actions (lines 638--718)\<close>


definition pauseSimulation :: "World \<Rightarrow> World" where
  "pauseSimulation w = (case w of (prev, t) \<Rightarrow> (prev\<lparr> isPaused := True \<rparr>, t))"

definition resumeSimulation :: "World \<Rightarrow> World" where
  "resumeSimulation w = (case w of (prev, t) \<Rightarrow> (prev\<lparr> isPaused := False \<rparr>, t))"

definition stopSimulation :: "World \<Rightarrow> World" where
  "stopSimulation w = (case w of (prev, t) \<Rightarrow> (prev\<lparr> isRunning := False, isPaused := False \<rparr>, None))"

definition envName :: "Environment \<Rightarrow> string" where
  "envName env =
     (case env of
        OpenGrid \<Rightarrow> ''open-grid'' | UrbanDense \<Rightarrow> ''urban-dense''
      | MazeFacility \<Rightarrow> ''maze-facility'' | DynamicRisk \<Rightarrow> ''dynamic-risk''
      | ChangingEnv \<Rightarrow> ''changing-env'' | FogOfWar \<Rightarrow> ''fog-of-war'')"


definition setAlgorithm :: "Algorithm \<Rightarrow> World \<Rightarrow> World" where
  "setAlgorithm algorithm w =
     (case w of (prev, t) \<Rightarrow> (prev\<lparr> currentAlgorithm := algorithm \<rparr>, None))"

definition environmentEvent :: "Runtime \<Rightarrow> Environment \<Rightarrow> TimelineEvent" where
  "environmentEvent rt environment =
     \<lparr> ev_id = ''env-change-'' @ numToString rt (dateNow rt),
       ev_timestamp = 0,
       ev_type = EnvironmentEvent,
       ev_message = ''Environment changed to '' @ envName environment,
       ev_severity = Info \<rparr>"

definition setEnvironment :: "Runtime \<Rightarrow> Environment \<Rightarrow> World \<Rightarrow> World" where
  "setEnvironment rt environment w =
     (case w of (prev, t) \<Rightarrow>
        (let newObstacles = generateObstacles (random rt) environment;
             k1 = generateObstaclesDraws environment;
             newIntruders = generateIntruders (shift k1 (random rt)) environment;
             k2 = k1 + generateIntrudersDraws environment;
             isFogOfWar = (environment = FogOfWar)
         in (prev\<lparr> currentEnvironment := environment,
                    obstacles := newObstacles,
                    intruders := newIntruders,
                    grid := createGrid (shift k2 (random rt)) isFogOfWar,
                    drone := initialDroneState,
                    metrics := initialMetrics\<lparr> totalIntruders := real (length newIntruders) \<rparr>,
                    timeline := [environmentEvent rt environment],
                    elapsedTime := 0,
                    isRunning := False,
                    isPaused := False \<rparr>, None)))"

definition setHeatmap :: "HeatmapType \<Rightarrow> World \<Rightarrow> World" where
  "setHeatmap heatmap w = (case w of (prev, t) \<Rightarrow> (prev\<lparr> activeHeatmap := heatmap \<rparr>, t))"

definition setSpeed :: "real \<Rightarrow> World \<Rightarrow> World" where
  "setSpeed v w = (case w of (prev, t) \<Rightarrow> (prev\<lparr> speed := v \<rparr>, t))"

definition addTimelineEvent :: "TimelineEvent \<Rightarrow> World \<Rightarrow> World" where
  "addTimelineEvent event w =
     (case w of (prev, t) \<Rightarrow> (prev\<lparr> timeline := take 50 (event # timeline prev) \<rparr>, t))"

section \<open>Well-formed grids, runs of ticks and a concrete scenario\<close>

text \<open>Every grid that \<open>createGrid\<close> builds has 20 rows of 20 cells.\<close>

definition wf_grid :: "Grid \<Rightarrow> bool" where
  "wf_grid g = (length g = GRID_SIZE \<and> list_all (\<lambda>row. length row = GRID_SIZE) g)"



text \<open>
  The scenario of the specification: the agent at \<open>(0,2,0)\<close> with sensor radius 4 (the
  initial drone state), one undetected intruder at \<open>(1,2,1)\<close>, running and not paused,
  with the zigzag algorithm selected. The runtime of the scenario draws 0 every time and
  prints every number as \<open>#\<close>.
\<close>

definition zeroDraws :: "nat \<Rightarrow> real" where
  "zeroDraws k = 0"

definition plainNumber :: "real \<Rightarrow> string" where
  "plainNumber v = ''#''"

definition exampleRuntime :: Runtime where
  "exampleRuntime =
     \<lparr> random = zeroDraws, dateNow = 0, numToString = plainNumber, toFixed1 = plainNumber \<rparr>"

definition scenarioIntruder :: Intruder where
  "scenarioIntruder =
     \<lparr> intr_id = ''intruder-0'',
       intr_position = \<lparr> pos_x = 1, pos_y = 2, pos_z = 1 \<rparr>,
       detected = False,
       threatLevel = Some High,
       detectedAt = None \<rparr>"

definition scenarioState :: SimulationState where
  "scenarioState =
     \<lparr> isRunning = True,
       isPaused = False,
       speed = 1,
       currentAlgorithm = ZPA,
       currentEnvironment = OpenGrid,
       activeHeatmap = HmNone,
       drone = initialDroneState,
       obstacles = [],
       intruders = [scenarioIntruder],
       grid = createGrid zeroDraws False,
       metrics = initialMetrics\<lparr> totalIntruders := 1 \<rparr>,
       decisionReasons = [],
       timeline = [],
       elapsedTime = 0 \<rparr>"

definition scenarioTarget :: Position where
  "scenarioTarget = \<lparr> pos_x = 0, pos_y = 2, pos_z = - 2 \<rparr>"

definition zigzagReasons :: "DecisionReason list" where
  "zigzagReasons =
     [mkReason 1 ''Continuing zigzag pattern'' 80 ''TrendingUp'',
      mkReason 2 ''Systematic coverage'' 60 ''Grid3x3'']"

definition rowAdvanceReasons :: "DecisionReason list" where
  "rowAdvanceReasons =
     [mkReason 1 ''Advancing to next row'' 80 ''ArrowRight'',
      mkReason 2 ''Systematic coverage'' 60 ''Grid3x3'']"

definition scenarioNearTarget :: Position where
  "scenarioNearTarget = \<lparr> pos_x = 0, pos_y = 2, pos_z = 1 / 5 \<rparr>"

definition scenarioEvent :: TimelineEvent where
  "scenarioEvent =
     \<lparr> ev_id = ''cv-1'', ev_timestamp = 3, ev_type = Alert,
       ev_message = ''person detected'', ev_severity = Warning \<rparr>"



section \<open>Auxiliary facts\<close>

lemma generateIntrudersLoop_length:
  "length (generateIntrudersLoop rnd env i k n) = n"
  by (induction n arbitrary: i k) (auto split: prod.splits)

lemma generateIntrudersLoop_detected:
  "map detected (generateIntrudersLoop rnd env i k n) = replicate n False"
  by (induction n arbitrary: i k) (auto simp: generateIntruder_def Let_def split: prod.splits)

lemma wf_grid_row: "wf_grid g \<Longrightarrow> gx < 20 \<Longrightarrow> length (g ! gx) = 20"
  by (simp add: wf_grid_def GRID_SIZE_def list_all_length)

lemma wf_grid_length: "wf_grid g \<Longrightarrow> length g = 20"
  by (simp add: wf_grid_def GRID_SIZE_def)

lemma wf_grid_createGrid: "wf_grid (createGrid rnd fog)"
  by (simp add: wf_grid_def createGrid_def list_all_length)

lemma markAt_wf:
  assumes "wf_grid g" "gx < 20" "gz < 20"
  shows "\<exists>g'. markAt g gx gz t = Inr g' \<and> wf_grid g'
           \<and> (\<forall>a b. a < 20 \<longrightarrow> b < 20 \<longrightarrow>
                 g' ! a ! b = (if a = gx \<and> b = gz then markCell t (g ! a ! b) else g ! a ! b))"
proof -
  let ?g' = "g[gx := (g ! gx)[gz := markCell t (g ! gx ! gz)]]"
  have len: "length g = 20" and row: "\<And>a. a < 20 \<Longrightarrow> length (g ! a) = 20"
    using assms(1) by (simp_all add: wf_grid_length wf_grid_row)
  have m: "markAt g gx gz t = Inr ?g'"
    using assms len row by (simp add: markAt_def)
  have w: "wf_grid ?g'"
    using assms len row
    by (auto simp: wf_grid_def GRID_SIZE_def list_all_length nth_list_update)
  have c: "\<forall>a b. a < 20 \<longrightarrow> b < 20 \<longrightarrow>
             ?g' ! a ! b = (if a = gx \<and> b = gz then markCell t (g ! a ! b) else g ! a ! b)"
    using assms len row by (auto simp: nth_list_update)
  from m w c show ?thesis by blast
qed

lemma markLoop_skip:
  "\<not> (0 \<le> cx + dx \<and> cx + dx < 20 \<and> 0 \<le> cz + dz \<and> cz + dz < 20
       \<and> hypot (of_int dx) (of_int dz) \<le> fov)
   \<Longrightarrow> markLoop fov t cx cz ((dx, dz) # rest) g = markLoop fov t cx cz rest g"
  by (auto simp: Let_def GRID_SIZE_def)

lemma markLoop_hit:
  "0 \<le> cx + dx \<and> cx + dx < 20 \<and> 0 \<le> cz + dz \<and> cz + dz < 20
       \<and> hypot (of_int dx) (of_int dz) \<le> fov
   \<Longrightarrow> markAt g (nat (cx + dx)) (nat (cz + dz)) t = Inr g1
   \<Longrightarrow> markLoop fov t cx cz ((dx, dz) # rest) g = markLoop fov t cx cz rest g1"
  by (auto simp: Let_def GRID_SIZE_def)

lemma markLoop_wf:
  assumes "wf_grid g" "distinct os"
  shows "\<exists>g'. markLoop fov t cx cz os g = Inr g' \<and> wf_grid g'
           \<and> (\<forall>a b. a < 20 \<longrightarrow> b < 20 \<longrightarrow>
                 g' ! a ! b =
                   (if (int a - cx, int b - cz) \<in> set os
                       \<and> hypot (of_int (int a - cx)) (of_int (int b - cz)) \<le> fov
                    then markCell t (g ! a ! b) else g ! a ! b))"
  using assms
proof (induction os arbitrary: g)
  case Nil
  then show ?case by simp
next
  case (Cons o1 os)
  obtain dx dz where o1: "o1 = (dx, dz)" by (cases o1)
  from Cons.prems have d: "distinct os" and notin: "(dx, dz) \<notin> set os"
    by (simp_all add: o1)
  show ?case
  proof (cases "0 \<le> cx + dx \<and> cx + dx < 20 \<and> 0 \<le> cz + dz \<and> cz + dz < 20
                  \<and> hypot (of_int dx) (of_int dz) \<le> fov")
    case True
    then have bx: "nat (cx + dx) < 20" and bz: "nat (cz + dz) < 20" by auto
    from markAt_wf [OF Cons.prems(1) bx bz, of t]
    obtain g1 where g1: "markAt g (nat (cx + dx)) (nat (cz + dz)) t = Inr g1"
      and w1: "wf_grid g1"
      and c1: "\<And>a b. a < 20 \<Longrightarrow> b < 20 \<Longrightarrow>
                 g1 ! a ! b = (if a = nat (cx + dx) \<and> b = nat (cz + dz)
                               then markCell t (g ! a ! b) else g ! a ! b)"
      by blast
    from Cons.IH [OF w1 d]
    obtain g' where g': "markLoop fov t cx cz os g1 = Inr g'"
      and w': "wf_grid g'"
      and c': "\<And>a b. a < 20 \<Longrightarrow> b < 20 \<Longrightarrow>
                 g' ! a ! b =
                   (if (int a - cx, int b - cz) \<in> set os
                       \<and> hypot (of_int (int a - cx)) (of_int (int b - cz)) \<le> fov
                    then markCell t (g1 ! a ! b) else g1 ! a ! b)"
      by blast
    have run: "markLoop fov t cx cz (o1 # os) g = Inr g'"
      unfolding o1 using markLoop_hit [OF True g1] g' by simp
    have cells: "\<forall>a b. a < 20 \<longrightarrow> b < 20 \<longrightarrow>
                 g' ! a ! b =
                   (if (int a - cx, int b - cz) \<in> set (o1 # os)
                       \<and> hypot (of_int (int a - cx)) (of_int (int b - cz)) \<le> fov
                    then markCell t (g ! a ! b) else g ! a ! b)"
    proof (intro allI impI)
      fix a b :: nat
      assume a: "a < 20" and b: "b < 20"
      have here: "(a = nat (cx + dx) \<and> b = nat (cz + dz)) \<longleftrightarrow> (int a - cx, int b - cz) = (dx, dz)"
        using True by auto
      show "g' ! a ! b =
                   (if (int a - cx, int b - cz) \<in> set (o1 # os)
                       \<and> hypot (of_int (int a - cx)) (of_int (int b - cz)) \<le> fov
                    then markCell t (g ! a ! b) else g ! a ! b)"
      proof (cases "(int a - cx, int b - cz) = (dx, dz)")
        case True
        with notin have n: "(int a - cx, int b - cz) \<notin> set os" by simp
        from True here have h: "a = nat (cx + dx) \<and> b = nat (cz + dz)" by simp
        from c1 [OF a b] h have e1: "g1 ! a ! b = markCell t (g ! a ! b)" by simp
        from c' [OF a b] n have e2: "g' ! a ! b = g1 ! a ! b" by simp
        from True \<open>0 \<le> cx + dx \<and> _\<close> have f: "hypot (of_int (int a - cx)) (of_int (int b - cz)) \<le> fov"
          by simp
        have m: "(int a - cx, int b - cz) \<in> set (o1 # os)" using True by (simp add: o1)
        from m f show ?thesis by (simp only: e1 e2 simp_thms if_True)
      next
        case False
        with here have h: "\<not> (a = nat (cx + dx) \<and> b = nat (cz + dz))" by simp
        from c1 [OF a b] h have e1: "g1 ! a ! b = g ! a ! b" by simp
        have m: "(int a - cx, int b - cz) \<in> set (o1 # os) \<longleftrightarrow> (int a - cx, int b - cz) \<in> set os"
          using False by (auto simp: o1)
        show ?thesis using c' [OF a b] by (simp only: m e1)
      qed
    qed
    from run w' cells show ?thesis by blast
  next
    case False
    from Cons.IH [OF Cons.prems(1) d]
    obtain g' where g': "markLoop fov t cx cz os g = Inr g'"
      and w': "wf_grid g'"
      and c': "\<And>a b. a < 20 \<Longrightarrow> b < 20 \<Longrightarrow>
                 g' ! a ! b =
                   (if (int a - cx, int b - cz) \<in> set os
                       \<and> hypot (of_int (int a - cx)) (of_int (int b - cz)) \<le> fov
                    then markCell t (g ! a ! b) else g ! a ! b)"
      by blast
    have run: "markLoop fov t cx cz (o1 # os) g = Inr g'"
      unfolding o1 using markLoop_skip [OF False] g' by simp
    have cells: "\<forall>a b. a < 20 \<longrightarrow> b < 20 \<longrightarrow>
                 g' ! a ! b =
                   (if (int a - cx, int b - cz) \<in> set (o1 # os)
                       \<and> hypot (of_int (int a - cx)) (of_int (int b - cz)) \<le> fov
                    then markCell t (g ! a ! b) else g ! a ! b)"
    proof (intro allI impI)
      fix a b :: nat
      assume a: "a < 20" and b: "b < 20"
      have "(int a - cx, int b - cz) = (dx, dz) \<Longrightarrow> \<not> hypot (of_int (int a - cx)) (of_int (int b - cz)) \<le> fov"
        using False a b by auto
      with c' [OF a b] show "g' ! a ! b =
                   (if (int a - cx, int b - cz) \<in> set (o1 # os)
                       \<and> hypot (of_int (int a - cx)) (of_int (int b - cz)) \<le> fov
                    then markCell t (g ! a ! b) else g ! a ! b)"
        by (auto simp: o1)
    qed
    from run w' cells show ?thesis by blast
  qed
qed

lemma fovOffsets_distinct: "distinct fovOffsets"
  unfolding fovOffsets_def by (intro distinct_product distinct_upto)

lemma fovOffsets_set: "(dx, dz) \<in> set fovOffsets \<longleftrightarrow> \<bar>dx\<bar> \<le> 3 \<and> \<bar>dz\<bar> \<le> 3"
  unfolding fovOffsets_def set_product set_upto by auto

lemma updateGridCoverage_wf:
  assumes "wf_grid g"
  shows "\<exists>g'. updateGridCoverage nd t g = Inr g' \<and> wf_grid g'
           \<and> (\<forall>a b. a < 20 \<longrightarrow> b < 20 \<longrightarrow>
                 g' ! a ! b =
                   (if \<bar>int a - \<lfloor>pos_x (position nd) + 10\<rfloor>\<bar> \<le> 3
                       \<and> \<bar>int b - \<lfloor>pos_z (position nd) + 10\<rfloor>\<bar> \<le> 3
                       \<and> hypot (of_int (int a - \<lfloor>pos_x (position nd) + 10\<rfloor>))
                                (of_int (int b - \<lfloor>pos_z (position nd) + 10\<rfloor>)) \<le> fovRange nd
                    then markCell t (g ! a ! b) else g ! a ! b))"
  using markLoop_wf [OF assms fovOffsets_distinct,
      of "fovRange nd" t "\<lfloor>pos_x (position nd) + 10\<rfloor>" "\<lfloor>pos_z (position nd) + 10\<rfloor>"]
  unfolding updateGridCoverage_def Let_def fovOffsets_set
  by (simp only: conj_assoc)

lemma updateSimulation_idle:
  "\<not> isRunning s \<or> isPaused s \<Longrightarrow> updateSimulation rt deltaTime (s, tgt) = Inr (s, tgt)"
  by (auto simp: updateSimulation_def)

lemma updateSimulation_acquire:
  "isRunning s \<Longrightarrow> \<not> isPaused s \<Longrightarrow> tgt = None \<or> (\<exists>t. tgt = Some t \<and> targetReached s t)
   \<Longrightarrow> updateSimulation rt deltaTime (s, tgt) = Inr (acquireTarget rt s)"
  by (auto simp: updateSimulation_def)

lemma updateSimulation_move:
  "isRunning s \<Longrightarrow> \<not> isPaused s \<Longrightarrow> \<not> targetReached s target
   \<Longrightarrow> updateSimulation rt deltaTime (s, Some target) = moveTick rt (deltaTime * speed s) s target"
  by (simp add: updateSimulation_def)

lemma moveTick_Inr:
  assumes "updateGridCoverage (moveDrone dt target (drone s)) (elapsedTime s + dt) (grid s) = Inr g'"
  shows "moveTick rt dt s target =
     Inr (s\<lparr> drone := moveDrone dt target (drone s),
              grid := g',
              intruders := map (detectIntruder (moveDrone dt target (drone s)) (elapsedTime s + dt)) (intruders s),
              metrics := calcMetrics (metrics s) (moveDrone dt target (drone s)) g'
                 (map (detectIntruder (moveDrone dt target (drone s)) (elapsedTime s + dt)) (intruders s))
                 (elapsedTime s + dt),
              timeline := take 50 (updateTimeline rt (elapsedTime s + dt)
                 (map (detectIntruder (moveDrone dt target (drone s)) (elapsedTime s + dt)) (intruders s))
                 (intruders s) (timeline s)),
              elapsedTime := elapsedTime s + dt \<rparr>, Some target)"
  using assms by (simp add: moveTick_def Let_def)

lemma moveTick_metrics:
  assumes "updateGridCoverage (moveDrone dt target (drone s)) (elapsedTime s + dt) (grid s) = Inr g'"
  shows "\<exists>s1. moveTick rt dt s target = Inr (s1, Some target) \<and> grid s1 = g'
           \<and> metrics s1 = calcMetrics (metrics s) (moveDrone dt target (drone s)) g'
                 (map (detectIntruder (moveDrone dt target (drone s)) (elapsedTime s + dt)) (intruders s))
                 (elapsedTime s + dt)"
  by (simp add: moveTick_Inr [OF assms])

lemma moveDrone_battery: "battery (moveDrone dt target d) = max 0 (battery d - 0.01 * dt)"
  by (simp add: moveDrone_def Let_def)

lemma moveDrone_fovRange: "fovRange (moveDrone dt target d) = fovRange d"
  by (simp add: moveDrone_def Let_def)

lemma acquireTarget_frame:
  "\<exists>pos reasons. acquireTarget rt s = (s\<lparr> decisionReasons := reasons \<rparr>, Some pos)"
  by (cases "getNextPosition rt (currentAlgorithm s) (drone s) (grid s) (intruders s) (obstacles s)")
     (auto simp: acquireTarget_def)

lemma calcMetrics_sum:
  "areaObserved (calcMetrics pm nd g ins t) + blindSpots (calcMetrics pm nd g ins t) = 100"
  by (simp add: calcMetrics_def Let_def GRID_SIZE_def field_simps)



lemma markCell_fields:
  "markCell t c = c\<lparr> visited := True, lastVisited := t, coverageValue := 1,
        uncertaintyValue := max 0 (uncertaintyValue c - 0.1), isVisible := True \<rparr>"
  by (simp add: markCell_def)

lemma updateTimeline_zip:
  "length new = length old \<Longrightarrow>
   updateTimeline rt t new old tl0 =
     rev (map (\<lambda>(i', i). detectionEvent rt t i')
            (filter (\<lambda>(i', i). detected i' \<and> \<not> detected i) (zip new old))) @ tl0"
  unfolding updateTimeline_def
  by (induction new old arbitrary: tl0 rule: list_induct2) auto

lemma take_rev_map_head:
  "xs \<noteq> [] \<Longrightarrow> take 50 (rev (map f xs) @ ys) ! 0 = f (last xs)"
  by (cases xs rule: rev_cases) auto

lemma zpa_at_x0:
  "pos_x (position d) = 0 \<Longrightarrow>
   decideZPA d =
     (if pos_z (position d) \<le> - 8
      then (position d\<lparr> pos_x := 2 \<rparr>, rowAdvanceReasons)
      else (position d\<lparr> pos_z := pos_z (position d) - 2 \<rparr>, zigzagReasons))"
  by (simp add: decideZPA_def Let_def rowAdvanceReasons_def zigzagReasons_def)

lemma scenario_acquire:
  "getNextPosition rt ZPA initialDroneState g intrs obsts = (scenarioTarget, zigzagReasons)"
  by (simp add: getNextPosition_def zpa_at_x0 initialDroneState_def scenarioTarget_def zigzagReasons_def)

lemma moveDrone_near:
  assumes px: "pos_x (position d) = 0" and pz: "pos_z (position d) = 0"
    and far: "\<not> hypot (0 - pos_x target) (0 - pos_z target) < 0.5"
    and dt: "\<bar>dt\<bar> \<le> 1"
  shows "hypot (1 - pos_x (position (moveDrone dt target d)))
               (1 - pos_z (position (moveDrone dt target d))) \<le> 4"
proof -
  define D where "D = hypot (pos_x target) (pos_z target)"
  define m where "m = min (2 * dt) D"
  define u where "u = pos_x target / D"
  define v where "v = pos_z target / D"
  from far have D: "1 / 2 \<le> D" by (simp add: D_def hypot_def)
  have Dsq: "D\<^sup>2 = (pos_x target)\<^sup>2 + (pos_z target)\<^sup>2"
    by (simp add: D_def hypot_def)
  have m: "\<bar>m\<bar> \<le> 2" using dt D by (auto simp: m_def min_def abs_le_iff)
  have uv: "u\<^sup>2 + v\<^sup>2 = 1"
  proof -
    have "u\<^sup>2 + v\<^sup>2 = ((pos_x target)\<^sup>2 + (pos_z target)\<^sup>2) / D\<^sup>2"
      by (simp add: u_def v_def power_divide add_divide_distrib)
    also have "\<dots> = D\<^sup>2 / D\<^sup>2" by (simp only: Dsq)
    also have "\<dots> = 1" using D by simp
    finally show ?thesis .
  qed
  have "u\<^sup>2 \<le> 1" "v\<^sup>2 \<le> 1" using uv zero_le_power2 [of u] zero_le_power2 [of v] by linarith+
  then have u1: "\<bar>u\<bar> \<le> 1" and v1: "\<bar>v\<bar> \<le> 1" by (simp_all add: abs_square_le_1)
  have mu: "\<bar>m * u\<bar> \<le> 2" and mv: "\<bar>m * v\<bar> \<le> 2"
    using mult_mono [OF m u1] mult_mono [OF m v1] by (simp_all add: abs_mult)
  have m2: "m\<^sup>2 \<le> 4" using m abs_le_square_iff [of m 2] by simp
  have posx: "pos_x (position (moveDrone dt target d)) = u * m"
    and posz: "pos_z (position (moveDrone dt target d)) = v * m"
    using D by (simp_all add: moveDrone_def Let_def px pz D_def [symmetric] m_def u_def v_def)
  have "(1 - u * m)\<^sup>2 + (1 - v * m)\<^sup>2 = 2 - 2 * (m * u) - 2 * (m * v) + m\<^sup>2 * (u\<^sup>2 + v\<^sup>2)"
    by (simp add: power2_eq_square algebra_simps)
  also have "\<dots> = 2 - 2 * (m * u) - 2 * (m * v) + m\<^sup>2" by (simp add: uv)
  also have "\<dots> \<le> 4\<^sup>2" using mu mv m2 by (simp add: abs_le_iff)
  finally show ?thesis
    unfolding hypot_def posx posz by (intro real_le_lsqrt) simp_all
qed

lemma detectionEvent_detected:
  "detectionEvent rt t (i\<lparr> detected := a, detectedAt := b \<rparr>) = detectionEvent rt t i"
  by (simp add: detectionEvent_def)

lemma hypot_le_iff: "0 \<le> r \<Longrightarrow> hypot a b \<le> r \<longleftrightarrow> a\<^sup>2 + b\<^sup>2 \<le> r\<^sup>2"
  using real_sqrt_le_iff [of "a\<^sup>2 + b\<^sup>2" "r\<^sup>2"] by (simp add: hypot_def)

lemma calcMetrics_area:
  "areaObserved (calcMetrics pm nd g ins t) = real (length (filter visited (concat g))) / 400 * 100"
  by (simp add: calcMetrics_def Let_def GRID_SIZE_def)

lemma calcMetrics_blind:
  "blindSpots (calcMetrics pm nd g ins t)
     = (400 - real (length (filter visited (concat g)))) / 400 * 100"
  by (simp add: calcMetrics_def Let_def GRID_SIZE_def)

lemma scenario_wf: "wf_grid (grid scenarioState)"
  by (simp add: scenarioState_def wf_grid_createGrid)

lemma hypot_zero: "hypot 0 b = \<bar>b\<bar>"
  by (simp add: hypot_def)

lemma scenario_far: "\<not> targetReached scenarioState scenarioTarget"
  by (simp add: targetReached_def hypot_zero scenarioState_def initialDroneState_def
      scenarioTarget_def)

lemma scenario_moveDrone:
  "position (moveDrone (1 / 10) scenarioTarget initialDroneState)
     = \<lparr> pos_x = 0, pos_y = 2, pos_z = - (1 / 5) \<rparr>"
  by (simp add: moveDrone_def Let_def scenarioTarget_def initialDroneState_def hypot_zero)

lemma scenario_move_tick:
  "\<exists>s'. updateSimulation exampleRuntime (1 / 10) (scenarioState, Some scenarioTarget)
           = Inr (s', Some scenarioTarget)
         \<and> position (drone s') = \<lparr> pos_x = 0, pos_y = 2, pos_z = - (1 / 5) \<rparr>
         \<and> fovRange (drone s') = 4
         \<and> intruders s' = [scenarioIntruder\<lparr> detected := True, detectedAt := Some (1 / 10) \<rparr>]
         \<and> elapsedTime s' = 1 / 10"
proof -
  have h: "isRunning scenarioState" "\<not> isPaused scenarioState"
    by (simp_all add: scenarioState_def)
  have sp: "speed scenarioState = 1" "drone scenarioState = initialDroneState"
    "elapsedTime scenarioState = 0" "intruders scenarioState = [scenarioIntruder]"
    by (simp_all add: scenarioState_def)
  let ?nd = "moveDrone (1 / 10) scenarioTarget initialDroneState"
  from updateGridCoverage_wf [OF scenario_wf]
  obtain g' where g': "updateGridCoverage
        (moveDrone (1 / 10 * speed scenarioState) scenarioTarget (drone scenarioState))
        (elapsedTime scenarioState + 1 / 10 * speed scenarioState) (grid scenarioState) = Inr g'"
    by blast
  have fv: "fovRange ?nd = 4" by (simp add: moveDrone_fovRange initialDroneState_def)
  have det: "detectIntruder ?nd (1 / 10) scenarioIntruder
               = scenarioIntruder\<lparr> detected := True, detectedAt := Some (1 / 10) \<rparr>"
    by (simp add: detectIntruder_def Let_def scenario_moveDrone fv
        hypot_le_iff scenarioIntruder_def power2_eq_square)
  show ?thesis
    unfolding updateSimulation_move [OF h scenario_far] moveTick_Inr [OF g']
    using det fv by (simp add: sp scenario_moveDrone)
qed



section \<open>Claims\<close>

subsection \<open>C1: detection in the one-intruder scenario\<close>

text \<open>
  Claim C1, as amended. The agent is at \<open>(0,2,0)\<close> with sensor radius 4 and the only
  intruder, not yet detected, is at \<open>(1,2,1)\<close>. A tick processed while running and not
  paused that moves the agent (a target exists and is not yet reached) with a scaled
  delta-time of absolute value at most 1 succeeds, marks the intruder as detected, records
  the new elapsed time as its \<open>detectedAt\<close> and puts a \<open>detection\<close> event in front of
  the timeline (cut to 50 entries). A tick that obtains a new target does none of this.
\<close>

theorem C1_detection_on_move_tick:
  assumes run: "isRunning s" "\<not> isPaused s" and wf: "wf_grid (grid s)"
    and pos: "position (drone s) = \<lparr> pos_x = 0, pos_y = 2, pos_z = 0 \<rparr>"
    and fov: "fovRange (drone s) = 4"
    and intr: "intruders s = [i]" "intr_position i = \<lparr> pos_x = 1, pos_y = 2, pos_z = 1 \<rparr>"
      "\<not> detected i"
    and far: "\<not> targetReached s target"
    and dt: "\<bar>deltaTime * speed s\<bar> \<le> 1"
  shows "\<exists>s'. updateSimulation rt deltaTime (s, Some target) = Inr (s', Some target)
           \<and> intruders s' = [i\<lparr> detected := True, detectedAt := Some (elapsedTime s') \<rparr>]
           \<and> elapsedTime s' = elapsedTime s + deltaTime * speed s
           \<and> timeline s' = take 50 (detectionEvent rt (elapsedTime s') i # timeline s)
           \<and> ev_type (timeline s' ! 0) = Detection"
proof -
  let ?dt = "deltaTime * speed s"
  let ?nd = "moveDrone ?dt target (drone s)"
  let ?t = "elapsedTime s + ?dt"
  from updateGridCoverage_wf [OF wf, of ?nd ?t]
  obtain g' where g': "updateGridCoverage ?nd ?t (grid s) = Inr g'" by blast
  from far pos have far': "\<not> hypot (0 - pos_x target) (0 - pos_z target) < 0.5"
    by (simp add: targetReached_def)
  from pos have p0: "pos_x (position (drone s)) = 0" "pos_z (position (drone s)) = 0"
    by simp_all
  have near: "hypot (1 - pos_x (position ?nd)) (1 - pos_z (position ?nd)) \<le> 4"
    by (rule moveDrone_near [OF p0 far' dt])
  have det: "detectIntruder ?nd ?t i = i\<lparr> detected := True, detectedAt := Some ?t \<rparr>"
    using near intr(2,3) fov by (simp add: detectIntruder_def Let_def moveDrone_fovRange)
  have tl: "updateTimeline rt ?t (map (detectIntruder ?nd ?t) [i]) [i] (timeline s)
              = detectionEvent rt ?t i # timeline s"
    using intr(3) by (simp add: updateTimeline_def det detectionEvent_detected)
  show ?thesis
    unfolding updateSimulation_move [OF run far] moveTick_Inr [OF g']
    using det tl by (simp add: intr(1) detectionEvent_def)
qed

text \<open>The amended claim at the scenario, with the first target of the zigzag algorithm.\<close>

theorem C1_witness:
  "\<exists>s'. updateSimulation exampleRuntime (1 / 10) (scenarioState, Some scenarioTarget)
           = Inr (s', Some scenarioTarget)
         \<and> intruders s' = [scenarioIntruder\<lparr> detected := True, detectedAt := Some (1 / 10) \<rparr>]
         \<and> timeline s' = [detectionEvent exampleRuntime (1 / 10) scenarioIntruder]
         \<and> ev_type (timeline s' ! 0) = Detection"
proof -
  have h: "isRunning scenarioState" "\<not> isPaused scenarioState"
    "position (drone scenarioState) = \<lparr> pos_x = 0, pos_y = 2, pos_z = 0 \<rparr>"
    "fovRange (drone scenarioState) = 4"
    "intruders scenarioState = [scenarioIntruder]"
    "intr_position scenarioIntruder = \<lparr> pos_x = 1, pos_y = 2, pos_z = 1 \<rparr>"
    "\<not> detected scenarioIntruder"
    "\<bar>1 / 10 * speed scenarioState\<bar> \<le> 1"
    by (simp_all add: scenarioState_def scenarioIntruder_def initialDroneState_def)
  from C1_detection_on_move_tick [OF h(1,2) scenario_wf h(3-7) scenario_far h(8), of exampleRuntime]
  obtain s' where u: "updateSimulation exampleRuntime (1 / 10) (scenarioState, Some scenarioTarget)
           = Inr (s', Some scenarioTarget)"
    and i: "intruders s' = [scenarioIntruder\<lparr> detected := True, detectedAt := Some (elapsedTime s') \<rparr>]"
    and e: "elapsedTime s' = elapsedTime scenarioState + 1 / 10 * speed scenarioState"
    and t: "timeline s' = take 50 (detectionEvent exampleRuntime (elapsedTime s') scenarioIntruder
                                    # timeline scenarioState)"
    and d: "ev_type (timeline s' ! 0) = Detection"
    by blast
  from e have e': "elapsedTime s' = 1 / 10" by (simp add: scenarioState_def)
  from t have t': "timeline s' = [detectionEvent exampleRuntime (1 / 10) scenarioIntruder]"
    unfolding e' by (simp add: scenarioState_def)
  from u i t' d show ?thesis unfolding e' by blast
qed

text \<open>
  The claim as stated fails on the first tick after a start: no target exists yet, the
  tick only obtains one, and the intruder stays undetected with no event logged.
\<close>

theorem C1_counterexample:
  "isRunning scenarioState \<and> \<not> isPaused scenarioState
   \<and> position (drone scenarioState) = \<lparr> pos_x = 0, pos_y = 2, pos_z = 0 \<rparr>
   \<and> fovRange (drone scenarioState) = 4
   \<and> intruders scenarioState = [scenarioIntruder]
   \<and> updateSimulation exampleRuntime (1 / 10) (scenarioState, None)
       = Inr (scenarioState\<lparr> decisionReasons := zigzagReasons \<rparr>, Some scenarioTarget)
   \<and> map detected (intruders (scenarioState\<lparr> decisionReasons := zigzagReasons \<rparr>)) = [False]
   \<and> map detectedAt (intruders (scenarioState\<lparr> decisionReasons := zigzagReasons \<rparr>)) = [None]
   \<and> timeline (scenarioState\<lparr> decisionReasons := zigzagReasons \<rparr>) = []"
proof -
  have u: "updateSimulation exampleRuntime (1 / 10) (scenarioState, None)
       = Inr (scenarioState\<lparr> decisionReasons := zigzagReasons \<rparr>, Some scenarioTarget)"
    by (simp add: updateSimulation_def acquireTarget_def scenarioState_def scenario_acquire)
  show ?thesis
    unfolding u by (simp add: scenarioState_def scenarioIntruder_def initialDroneState_def)
qed

subsection \<open>C2: battery drain\<close>

text \<open>
  Claim C2, as amended. On every tick processed while running and not paused that does
  not obtain a new target, the battery becomes \<open>max 0 (battery - 0.01 * dt)\<close>, where
  \<open>dt\<close> is the delta-time scaled by the speed, whatever the movement of that tick. On a
  tick that obtains a new target (no target yet, or the target is reached) the battery
  is unchanged.
\<close>

theorem C2_battery_on_move_tick:
  assumes "isRunning s" "\<not> isPaused s" "wf_grid (grid s)"
  shows "(\<not> targetReached s target \<longrightarrow>
            (\<exists>s'. updateSimulation rt deltaTime (s, Some target) = Inr (s', Some target)
                \<and> battery (drone s') = max 0 (battery (drone s) - 0.01 * (deltaTime * speed s))))
       \<and> (tgt = None \<or> (\<exists>t. tgt = Some t \<and> targetReached s t) \<longrightarrow>
            (\<exists>s' pos. updateSimulation rt deltaTime (s, tgt) = Inr (s', Some pos)
                \<and> battery (drone s') = battery (drone s)))"
proof (intro conjI impI)
  assume far: "\<not> targetReached s target"
  let ?dt = "deltaTime * speed s"
  from updateGridCoverage_wf [OF assms(3)]
  obtain g' where g': "updateGridCoverage (moveDrone ?dt target (drone s)) (elapsedTime s + ?dt) (grid s) = Inr g'"
    by blast
  show "\<exists>s'. updateSimulation rt deltaTime (s, Some target) = Inr (s', Some target)
                \<and> battery (drone s') = max 0 (battery (drone s) - 0.01 * (deltaTime * speed s))"
    unfolding updateSimulation_move [OF assms(1,2) far] moveTick_Inr [OF g']
    by (simp add: moveDrone_battery)
next
  assume acq: "tgt = None \<or> (\<exists>t. tgt = Some t \<and> targetReached s t)"
  obtain pos reasons where a: "acquireTarget rt s = (s\<lparr> decisionReasons := reasons \<rparr>, Some pos)"
    using acquireTarget_frame by blast
  show "\<exists>s' pos. updateSimulation rt deltaTime (s, tgt) = Inr (s', Some pos)
                \<and> battery (drone s') = battery (drone s)"
    unfolding updateSimulation_acquire [OF assms(1,2) acq] a by simp
qed

theorem C2_witness:
  "(\<exists>s'. updateSimulation exampleRuntime (1 / 10) (scenarioState, Some scenarioTarget)
            = Inr (s', Some scenarioTarget)
          \<and> battery (drone s') = 99999 / 1000)
   \<and> (\<exists>s' pos. updateSimulation exampleRuntime (1 / 10) (scenarioState, None)
            = Inr (s', Some pos)
          \<and> battery (drone s') = 100)"
proof -
  have h: "isRunning scenarioState" "\<not> isPaused scenarioState"
    by (simp_all add: scenarioState_def)
  have b: "battery (drone scenarioState) = 100" "speed scenarioState = 1"
    by (simp_all add: scenarioState_def initialDroneState_def)
  from C2_battery_on_move_tick [OF h scenario_wf, of scenarioTarget exampleRuntime "1 / 10" None]
    scenario_far
  show ?thesis by (simp add: b)
qed

text \<open>
  The claim as stated fails on a tick that only obtains a new target: the target is
  0.2 away, so it counts as reached, and the battery stays at 100.
\<close>

theorem C2_counterexample:
  "updateSimulation exampleRuntime (1 / 10) (scenarioState, Some scenarioNearTarget)
     = Inr (scenarioState\<lparr> decisionReasons := zigzagReasons \<rparr>, Some scenarioTarget)
   \<and> battery (drone (scenarioState\<lparr> decisionReasons := zigzagReasons \<rparr>))
       \<noteq> max 0 (battery (drone scenarioState) - 0.01 * (1 / 10 * speed scenarioState))"
proof -
  have near: "targetReached scenarioState scenarioNearTarget"
    by (simp add: targetReached_def hypot_zero scenarioState_def initialDroneState_def
        scenarioNearTarget_def)
  have u: "updateSimulation exampleRuntime (1 / 10) (scenarioState, Some scenarioNearTarget)
     = Inr (scenarioState\<lparr> decisionReasons := zigzagReasons \<rparr>, Some scenarioTarget)"
    using near
    by (simp add: updateSimulation_def acquireTarget_def scenarioState_def scenario_acquire)
  show ?thesis
    unfolding u by (simp add: scenarioState_def initialDroneState_def)
qed

subsection \<open>C3: the zigzag decision at \<open>x = 0\<close>\<close>

text \<open>
  Claim C3, as amended. At \<open>x = 0\<close> the column is \<open>floor ((0 + 10) / 2) = 5\<close>, which is
  odd, so the direction is \<open>-1\<close>. At \<open>z = 9\<close> the product \<open>z * dir\<close> is \<open>-9 < 8\<close>: the next
  decision leaves \<open>x\<close> unchanged, moves \<open>z\<close> by \<open>-2\<close> to 7 and gives the zigzag reason.
  The row advance at \<open>x = 0\<close> happens at \<open>z = -9\<close> (\<open>z * dir = 9 \<ge> 8\<close>): \<open>x\<close> advances by 2,
  \<open>z\<close> is unchanged and the reason is the row-advance reason.
\<close>

theorem C3_zpa_at_x0:
  "getNextPosition rt ZPA (d\<lparr> position := \<lparr> pos_x = 0, pos_y = h, pos_z = 9 \<rparr> \<rparr>) g intrs obsts
     = (\<lparr> pos_x = 0, pos_y = h, pos_z = 7 \<rparr>, zigzagReasons)
   \<and> getNextPosition rt ZPA (d\<lparr> position := \<lparr> pos_x = 0, pos_y = h, pos_z = - 9 \<rparr> \<rparr>) g intrs obsts
     = (\<lparr> pos_x = 2, pos_y = h, pos_z = - 9 \<rparr>, rowAdvanceReasons)"
  by (simp add: getNextPosition_def zpa_at_x0 zigzagReasons_def rowAdvanceReasons_def)

text \<open>The claim as stated fails: at \<open>x = 0\<close>, \<open>z = 9\<close> the decision is a zigzag step.\<close>

theorem C3_counterexample:
  "getNextPosition exampleRuntime ZPA
      (initialDroneState\<lparr> position := \<lparr> pos_x = 0, pos_y = 2, pos_z = 9 \<rparr> \<rparr>)
      (grid scenarioState) [] []
     = (\<lparr> pos_x = 0, pos_y = 2, pos_z = 7 \<rparr>, zigzagReasons)"
  by (simp add: getNextPosition_def zpa_at_x0 zigzagReasons_def)

subsection \<open>C4: \<open>setSpeed\<close>\<close>

text \<open>
  Claim C4, as amended. \<open>setSpeed\<close> stores every multiplier it is given, inside or
  outside \<open>[0.25, 4]\<close>; the target reference and every other field of the state are
  unchanged.
\<close>

theorem C4_setSpeed_unchecked:
  "speed (fst (setSpeed v w)) = v
   \<and> snd (setSpeed v w) = snd w
   \<and> (fst (setSpeed v w))\<lparr> speed := speed (fst w) \<rparr> = fst w"
  by (cases w) (simp add: setSpeed_def)

text \<open>The claim as stated fails: the multiplier 5 is outside the range and is stored.\<close>

theorem C4_counterexample:
  "\<not> (1 / 4 \<le> (5 :: real) \<and> (5 :: real) \<le> 4)
   \<and> speed scenarioState = 1
   \<and> speed (fst (setSpeed 5 (scenarioState, None))) = 5"
  by (simp add: setSpeed_def scenarioState_def)

subsection \<open>C5: the battery over a run of ticks\<close>




subsection \<open>C6: what the coverage step touches\<close>

text \<open>
  Claim C6. On a tick that moves the agent, over a well-formed grid, the new grid is
  again 20 by 20 and each cell \<open>(a, b)\<close> of it is as follows. If its offset from the
  agent's cell (the floor of the new position plus 10) is at most 3 in both directions
  and its Euclidean length is at most the sensor radius, the cell is the old one with
  \<open>visited = true\<close>, \<open>lastVisited\<close> the new elapsed time, \<open>coverageValue = 1\<close>,
  \<open>uncertaintyValue\<close> lowered by 0.1 and floored at 0, and \<open>isVisible = true\<close>. Every other
  cell is the old cell, also when it lies within the sensor radius.
\<close>

theorem C6_coverage_frame:
  assumes "isRunning s" "\<not> isPaused s" "wf_grid (grid s)" "\<not> targetReached s target"
  shows "\<exists>s'. updateSimulation rt deltaTime (s, Some target) = Inr (s', Some target)
           \<and> wf_grid (grid s')
           \<and> (\<forall>a b. a < 20 \<longrightarrow> b < 20 \<longrightarrow>
                 grid s' ! a ! b =
                   (if \<bar>int a - \<lfloor>pos_x (position (drone s')) + 10\<rfloor>\<bar> \<le> 3
                       \<and> \<bar>int b - \<lfloor>pos_z (position (drone s')) + 10\<rfloor>\<bar> \<le> 3
                       \<and> hypot (of_int (int a - \<lfloor>pos_x (position (drone s')) + 10\<rfloor>))
                                (of_int (int b - \<lfloor>pos_z (position (drone s')) + 10\<rfloor>))
                           \<le> fovRange (drone s')
                    then (grid s ! a ! b)\<lparr> visited := True,
                            lastVisited := elapsedTime s',
                            coverageValue := 1,
                            uncertaintyValue := max 0 (uncertaintyValue (grid s ! a ! b) - 0.1),
                            isVisible := True \<rparr>
                    else grid s ! a ! b))"
proof -
  let ?dt = "deltaTime * speed s"
  let ?nd = "moveDrone ?dt target (drone s)"
  from updateGridCoverage_wf [OF assms(3), of ?nd "elapsedTime s + ?dt"]
  obtain g' where g': "updateGridCoverage ?nd (elapsedTime s + ?dt) (grid s) = Inr g'"
    and wf': "wf_grid g'"
    and cells: "\<forall>a b. a < 20 \<longrightarrow> b < 20 \<longrightarrow>
                 g' ! a ! b =
                   (if \<bar>int a - \<lfloor>pos_x (position ?nd) + 10\<rfloor>\<bar> \<le> 3
                       \<and> \<bar>int b - \<lfloor>pos_z (position ?nd) + 10\<rfloor>\<bar> \<le> 3
                       \<and> hypot (of_int (int a - \<lfloor>pos_x (position ?nd) + 10\<rfloor>))
                                (of_int (int b - \<lfloor>pos_z (position ?nd) + 10\<rfloor>)) \<le> fovRange ?nd
                    then markCell (elapsedTime s + ?dt) (grid s ! a ! b) else grid s ! a ! b)"
    by blast
  show ?thesis
    unfolding updateSimulation_move [OF assms(1,2,4)] moveTick_Inr [OF g']
    using wf' cells by (simp add: markCell_fields)
qed

text \<open>
  In the scenario the agent ends at \<open>(0, -0.2)\<close>, in the cell \<open>(10, 9)\<close>. That cell is
  marked; the cell \<open>(14, 9)\<close>, at distance 4, is within the sensor radius but outside
  the window and keeps its old value.
\<close>

theorem C6_witness:
  "\<exists>s'. updateSimulation exampleRuntime (1 / 10) (scenarioState, Some scenarioTarget)
           = Inr (s', Some scenarioTarget)
         \<and> visited (grid s' ! 10 ! 9)
         \<and> lastVisited (grid s' ! 10 ! 9) = 1 / 10
         \<and> grid s' ! 14 ! 9 = grid scenarioState ! 14 ! 9"
proof -
  have h: "isRunning scenarioState" "\<not> isPaused scenarioState"
    by (simp_all add: scenarioState_def)
  from C6_coverage_frame [OF h scenario_wf scenario_far, of exampleRuntime "1 / 10"]
  obtain s' where u: "updateSimulation exampleRuntime (1 / 10) (scenarioState, Some scenarioTarget)
           = Inr (s', Some scenarioTarget)"
    and cells: "\<And>a b. a < 20 \<Longrightarrow> b < 20 \<Longrightarrow>
                 grid s' ! a ! b =
                   (if \<bar>int a - \<lfloor>pos_x (position (drone s')) + 10\<rfloor>\<bar> \<le> 3
                       \<and> \<bar>int b - \<lfloor>pos_z (position (drone s')) + 10\<rfloor>\<bar> \<le> 3
                       \<and> hypot (of_int (int a - \<lfloor>pos_x (position (drone s')) + 10\<rfloor>))
                                (of_int (int b - \<lfloor>pos_z (position (drone s')) + 10\<rfloor>))
                           \<le> fovRange (drone s')
                    then (grid scenarioState ! a ! b)\<lparr> visited := True,
                            lastVisited := elapsedTime s',
                            coverageValue := 1,
                            uncertaintyValue := max 0 (uncertaintyValue (grid scenarioState ! a ! b) - 0.1),
                            isVisible := True \<rparr>
                    else grid scenarioState ! a ! b)"
    by blast
  from scenario_move_tick u
  have d: "position (drone s') = \<lparr> pos_x = 0, pos_y = 2, pos_z = - (1 / 5) \<rparr>"
    "fovRange (drone s') = 4" "elapsedTime s' = 1 / 10"
    by auto
  have cx: "\<lfloor>pos_x (position (drone s')) + 10\<rfloor> = 10" by (simp add: d)
  have cz: "\<lfloor>pos_z (position (drone s')) + 10\<rfloor> = 9" by (simp add: d)
  have c1: "grid s' ! 10 ! 9 = (grid scenarioState ! 10 ! 9)\<lparr> visited := True,
                            lastVisited := 1 / 10,
                            coverageValue := 1,
                            uncertaintyValue := max 0 (uncertaintyValue (grid scenarioState ! 10 ! 9) - 0.1),
                            isVisible := True \<rparr>"
    using cells [of 10 9] by (simp add: cx cz d hypot_le_iff)
  have c2: "grid s' ! 14 ! 9 = grid scenarioState ! 14 ! 9"
    using cells [of 14 9] by (simp add: cx cz)
  from u c1 c2 show ?thesis by simp
qed

subsection \<open>C7: observed area plus blind spots\<close>

text \<open>
  Claim C7. Over a well-formed grid every tick succeeds. When the tick moves the agent
  the metrics are recomputed, with \<open>areaObserved = visited / 400 * 100\<close> and
  \<open>blindSpots = (400 - visited) / 400 * 100\<close> for the number of visited cells of the new
  grid, and their sum is exactly 100. A tick that does not recompute the metrics keeps
  them, so the sum is 100 after it when it was before (it is for the initial metrics).
\<close>

theorem C7_area_plus_blind:
  assumes "wf_grid (grid s)"
  shows "\<exists>s' tgt'. updateSimulation rt deltaTime (s, tgt) = Inr (s', tgt')
           \<and> (isRunning s \<and> \<not> isPaused s \<and> (\<exists>target. tgt = Some target \<and> \<not> targetReached s target)
                \<longrightarrow> areaObserved (metrics s')
                      = real (length (filter visited (concat (grid s')))) / 400 * 100
                  \<and> blindSpots (metrics s')
                      = (400 - real (length (filter visited (concat (grid s'))))) / 400 * 100)
           \<and> ((isRunning s \<and> \<not> isPaused s \<and> (\<exists>target. tgt = Some target \<and> \<not> targetReached s target))
                \<or> areaObserved (metrics s) + blindSpots (metrics s) = 100
                \<longrightarrow> areaObserved (metrics s') + blindSpots (metrics s') = 100)"
proof (cases "\<not> isRunning s \<or> isPaused s")
  case True
  then have "updateSimulation rt deltaTime (s, tgt) = Inr (s, tgt)"
    by (rule updateSimulation_idle)
  with True show ?thesis by auto
next
  case run: False
  show ?thesis
  proof (cases "tgt = None \<or> (\<exists>t. tgt = Some t \<and> targetReached s t)")
    case True
    obtain pos reasons where a: "acquireTarget rt s = (s\<lparr> decisionReasons := reasons \<rparr>, Some pos)"
      using acquireTarget_frame by blast
    from run True have "updateSimulation rt deltaTime (s, tgt) = Inr (s\<lparr> decisionReasons := reasons \<rparr>, Some pos)"
      by (simp add: updateSimulation_acquire a)
    with True show ?thesis by auto
  next
    case False
    then obtain target where t: "tgt = Some target" and far: "\<not> targetReached s target"
      by auto
    let ?dt = "deltaTime * speed s"
    from updateGridCoverage_wf [OF assms]
    obtain g' where g': "updateGridCoverage (moveDrone ?dt target (drone s)) (elapsedTime s + ?dt) (grid s) = Inr g'"
      by blast
    from run far have u: "updateSimulation rt deltaTime (s, tgt) = moveTick rt ?dt s target"
      by (simp add: t updateSimulation_move)
    from moveTick_metrics [OF g']
    obtain s1 where m: "moveTick rt ?dt s target = Inr (s1, Some target)"
      and gr: "grid s1 = g'"
      and mt: "metrics s1 = calcMetrics (metrics s) (moveDrone ?dt target (drone s)) g'
                 (map (detectIntruder (moveDrone ?dt target (drone s)) (elapsedTime s + ?dt)) (intruders s))
                 (elapsedTime s + ?dt)"
      by blast
    have area: "areaObserved (metrics s1) = real (length (filter visited (concat (grid s1)))) / 400 * 100"
      unfolding mt gr by (rule calcMetrics_area)
    have blind: "blindSpots (metrics s1)
                   = (400 - real (length (filter visited (concat (grid s1))))) / 400 * 100"
      unfolding mt gr by (rule calcMetrics_blind)
    have sum: "areaObserved (metrics s1) + blindSpots (metrics s1) = 100"
      unfolding mt by (rule calcMetrics_sum)
    from m area blind sum show ?thesis unfolding u by blast
  qed
qed

theorem C7_witness:
  "\<exists>s' tgt'. updateSimulation exampleRuntime (1 / 10) (scenarioState, Some scenarioTarget)
           = Inr (s', tgt')
         \<and> areaObserved (metrics s') + blindSpots (metrics s') = 100"
proof -
  have h: "isRunning scenarioState" "\<not> isPaused scenarioState"
    by (simp_all add: scenarioState_def)
  from C7_area_plus_blind [OF scenario_wf, of exampleRuntime "1 / 10" "Some scenarioTarget"]
    h scenario_far
  show ?thesis by auto
qed

subsection \<open>C8: sizes of the generated worlds\<close>

text \<open>
  Claim C8. \<open>generateObstacles\<close> on \<open>open-grid\<close> is the empty list; on \<open>dynamic-risk\<close>
  it has exactly 6 obstacles, each of type \<open>static\<close>; \<open>generateIntruders\<close> on
  \<open>dynamic-risk\<close> has exactly 8 intruders, each undetected. This holds for every
  sequence of random draws.
\<close>

theorem C8_generator_counts:
  "generateObstacles rnd OpenGrid = []
   \<and> length (generateObstacles rnd DynamicRisk) = 6
   \<and> map obs_type (generateObstacles rnd DynamicRisk) = replicate 6 Static
   \<and> length (generateIntruders rnd DynamicRisk) = 8
   \<and> map detected (generateIntruders rnd DynamicRisk) = replicate 8 False"
proof -
  have o1: "generateObstacles rnd OpenGrid = []"
    by (simp add: generateObstacles_def)
  have o2: "length (generateObstacles rnd DynamicRisk) = 6"
    by (simp add: generateObstacles_def)
  have o3: "map obs_type (generateObstacles rnd DynamicRisk) = replicate 6 Static"
    by (simp add: generateObstacles_def comp_def map_replicate_const)
  have i1: "length (generateIntruders rnd DynamicRisk) = 8"
    by (simp add: generateIntruders_def intruderCount_def generateIntrudersLoop_length)
  have i2: "map detected (generateIntruders rnd DynamicRisk) = replicate 8 False"
    by (simp add: generateIntruders_def intruderCount_def generateIntrudersLoop_detected)
  from o1 o2 o3 i1 i2 show ?thesis by simp
qed

subsection \<open>C9: the timeline holds at most 50 events, newest first\<close>

text \<open>
  Claim C9. After \<open>addTimelineEvent\<close> the timeline has at most 50 entries and the added
  event is at index 0. After \<open>setEnvironment\<close> the timeline has at most 50 entries (it
  has one) and the environment-change event is at index 0. A tick that moves the agent,
  over a well-formed grid, succeeds; its timeline is the detection events of the
  intruders detected on this tick, the last one inserted first, followed by the old
  timeline and cut to 50 entries: it has at most 50 entries, and when an intruder was
  detected on this tick the event inserted last is at index 0.
\<close>

theorem C9_timeline_cap:
  "length (timeline (fst (addTimelineEvent ev w))) \<le> 50
   \<and> timeline (fst (addTimelineEvent ev w)) ! 0 = ev
   \<and> length (timeline (fst (setEnvironment rt env w))) \<le> 50
   \<and> timeline (fst (setEnvironment rt env w)) ! 0 = environmentEvent rt env
   \<and> (wf_grid (grid s) \<and> isRunning s \<and> \<not> isPaused s \<and> \<not> targetReached s target \<longrightarrow>
        (\<exists>s'. updateSimulation rt deltaTime (s, Some target) = Inr (s', Some target)
           \<and> (let new = filter (\<lambda>(i', i). detected i' \<and> \<not> detected i)
                           (zip (intruders s') (intruders s))
              in timeline s' = take 50 (rev (map (\<lambda>(i', i). detectionEvent rt (elapsedTime s') i') new)
                                          @ timeline s)
                 \<and> length (timeline s') \<le> 50
                 \<and> (new \<noteq> [] \<longrightarrow>
                       timeline s' ! 0 = detectionEvent rt (elapsedTime s') (fst (last new))))))"
proof -
  obtain s0 t0 where w: "w = (s0, t0)" by (cases w)
  have a1: "length (timeline (fst (addTimelineEvent ev w))) \<le> 50"
    by (simp add: w addTimelineEvent_def)
  have a2: "timeline (fst (addTimelineEvent ev w)) ! 0 = ev"
    by (simp add: w addTimelineEvent_def)
  have e1: "length (timeline (fst (setEnvironment rt env w))) \<le> 50"
    by (simp add: w setEnvironment_def Let_def)
  have e2: "timeline (fst (setEnvironment rt env w)) ! 0 = environmentEvent rt env"
    by (simp add: w setEnvironment_def Let_def)
  have t: "wf_grid (grid s) \<and> isRunning s \<and> \<not> isPaused s \<and> \<not> targetReached s target \<longrightarrow>
        (\<exists>s'. updateSimulation rt deltaTime (s, Some target) = Inr (s', Some target)
           \<and> (let new = filter (\<lambda>(i', i). detected i' \<and> \<not> detected i)
                           (zip (intruders s') (intruders s))
              in timeline s' = take 50 (rev (map (\<lambda>(i', i). detectionEvent rt (elapsedTime s') i') new)
                                          @ timeline s)
                 \<and> length (timeline s') \<le> 50
                 \<and> (new \<noteq> [] \<longrightarrow>
                       timeline s' ! 0 = detectionEvent rt (elapsedTime s') (fst (last new)))))"
  proof (intro impI, elim conjE)
    assume wf: "wf_grid (grid s)" and run: "isRunning s" "\<not> isPaused s"
      and far: "\<not> targetReached s target"
    let ?dt = "deltaTime * speed s"
    let ?nd = "moveDrone ?dt target (drone s)"
    let ?t = "elapsedTime s + ?dt"
    let ?ins = "map (detectIntruder ?nd ?t) (intruders s)"
    let ?new = "filter (\<lambda>(i', i). detected i' \<and> \<not> detected i) (zip ?ins (intruders s))"
    let ?evs = "map (\<lambda>(i', i). detectionEvent rt ?t i') ?new"
    from updateGridCoverage_wf [OF wf]
    obtain g' where g': "updateGridCoverage ?nd ?t (grid s) = Inr g'"
      by blast
    have len: "length ?ins = length (intruders s)" by simp
    have eq: "take 50 (updateTimeline rt ?t ?ins (intruders s) (timeline s))
                = take 50 (rev ?evs @ timeline s)"
      unfolding updateTimeline_zip [OF len] ..
    have hd: "take 50 (rev ?evs @ timeline s) ! 0 = detectionEvent rt ?t (fst (last ?new))"
      if ne: "?new \<noteq> []"
      unfolding take_rev_map_head [OF ne] by (simp add: case_prod_beta)
    show "\<exists>s'. updateSimulation rt deltaTime (s, Some target) = Inr (s', Some target)
           \<and> (let new = filter (\<lambda>(i', i). detected i' \<and> \<not> detected i)
                           (zip (intruders s') (intruders s))
              in timeline s' = take 50 (rev (map (\<lambda>(i', i). detectionEvent rt (elapsedTime s') i') new)
                                          @ timeline s)
                 \<and> length (timeline s') \<le> 50
                 \<and> (new \<noteq> [] \<longrightarrow>
                       timeline s' ! 0 = detectionEvent rt (elapsedTime s') (fst (last new))))"
      unfolding updateSimulation_move [OF run far] moveTick_Inr [OF g']
      using eq hd by (simp add: Let_def)
  qed
  from a1 a2 e1 e2 t show ?thesis by blast
qed

text \<open>
  In the scenario each producer leaves its event at index 0: the external event, the
  environment-change event, and the detection event of the tick.
\<close>

theorem C9_witness:
  "length (timeline (fst (addTimelineEvent scenarioEvent (scenarioState, None)))) \<le> 50
   \<and> timeline (fst (addTimelineEvent scenarioEvent (scenarioState, None))) ! 0 = scenarioEvent
   \<and> timeline (fst (setEnvironment exampleRuntime DynamicRisk (scenarioState, None))) ! 0
       = environmentEvent exampleRuntime DynamicRisk
   \<and> (\<exists>s'. updateSimulation exampleRuntime (1 / 10) (scenarioState, Some scenarioTarget)
              = Inr (s', Some scenarioTarget)
            \<and> length (timeline s') \<le> 50
            \<and> timeline s' ! 0 = detectionEvent exampleRuntime (1 / 10) scenarioIntruder)"
proof -
  have h: "isRunning scenarioState" "\<not> isPaused scenarioState"
    "intruders scenarioState = [scenarioIntruder]" "\<not> detected scenarioIntruder"
    by (simp_all add: scenarioState_def scenarioIntruder_def)
  note c9 = C9_timeline_cap [of scenarioEvent "(scenarioState, None)" exampleRuntime DynamicRisk
      scenarioState scenarioTarget "1 / 10"]
  from c9 scenario_wf h(1,2) scenario_far
  obtain s' where u: "updateSimulation exampleRuntime (1 / 10) (scenarioState, Some scenarioTarget)
              = Inr (s', Some scenarioTarget)"
    and tl: "let new = filter (\<lambda>(i', i). detected i' \<and> \<not> detected i)
                           (zip (intruders s') (intruders scenarioState))
              in timeline s' = take 50 (rev (map (\<lambda>(i', i). detectionEvent exampleRuntime (elapsedTime s') i') new)
                                          @ timeline scenarioState)
                 \<and> length (timeline s') \<le> 50
                 \<and> (new \<noteq> [] \<longrightarrow>
                       timeline s' ! 0 = detectionEvent exampleRuntime (elapsedTime s') (fst (last new)))"
    by blast
  from scenario_move_tick u
  have d: "intruders s' = [scenarioIntruder\<lparr> detected := True, detectedAt := Some (1 / 10) \<rparr>]"
    "elapsedTime s' = 1 / 10"
    by auto
  from tl have t1: "length (timeline s') \<le> 50"
    and t2: "timeline s' ! 0 = detectionEvent exampleRuntime (1 / 10) scenarioIntruder"
    by (simp_all add: Let_def d h detectionEvent_detected)
  from c9 u t1 t2 show ?thesis by blast
qed

subsection \<open>C10: a tick that obtains a target changes the reasons only\<close>

text \<open>
  Claim C10. A tick processed while running and not paused on which no target exists,
  or the agent is within 0.5 of it, succeeds and returns the previous state with
  \<open>decisionReasons\<close> replaced: the drone, the grid, the intruders, the metrics, the
  timeline and the elapsed time are those of the previous state.
\<close>

theorem C10_acquire_tick_frame:
  assumes "isRunning s" "\<not> isPaused s"
    and "tgt = None \<or> (\<exists>t. tgt = Some t \<and> targetReached s t)"
  shows "\<exists>s' pos. updateSimulation rt deltaTime (s, tgt) = Inr (s', Some pos)
           \<and> s' = s\<lparr> decisionReasons := decisionReasons s' \<rparr>
           \<and> drone s' = drone s \<and> grid s' = grid s \<and> intruders s' = intruders s
           \<and> metrics s' = metrics s \<and> timeline s' = timeline s
           \<and> elapsedTime s' = elapsedTime s"
proof -
  obtain pos reasons where a: "acquireTarget rt s = (s\<lparr> decisionReasons := reasons \<rparr>, Some pos)"
    using acquireTarget_frame by blast
  show ?thesis
    unfolding updateSimulation_acquire [OF assms] a by simp
qed

theorem C10_witness:
  "\<exists>s' pos. updateSimulation exampleRuntime (1 / 10) (scenarioState, None) = Inr (s', Some pos)
     \<and> s' = scenarioState\<lparr> decisionReasons := decisionReasons s' \<rparr>
     \<and> drone s' = drone scenarioState \<and> grid s' = grid scenarioState
     \<and> intruders s' = intruders scenarioState \<and> metrics s' = metrics scenarioState
     \<and> timeline s' = timeline scenarioState \<and> elapsedTime s' = elapsedTime scenarioState"
proof -
  have h: "isRunning scenarioState" "\<not> isPaused scenarioState"
    by (simp_all add: scenarioState_def)
  from C10_acquire_tick_frame [OF h, of None exampleRuntime "1 / 10"]
  show ?thesis by simp
qed

end
